theory Spec2Isabelle
  imports Complex_Main
begin

section \<open>Double-precision numbers\<close>

text \<open>
  A JavaScript number is an IEEE 754 binary64 value. The finite ones are modelled as the
  reals they denote, and every arithmetic result is rounded to the nearest such real, ties
  to the even mantissa: \<open>toDouble\<close>. A positive real \<open>y\<close> lies in the binade of
  \<open>exponent y\<close> (not below that of the subnormal numbers, \<open>-1022\<close>), where representable
  values are \<open>ulp y\<close> apart (53-bit mantissa). No upper end of the exponent range is
  modelled: the clock of a session and its cursor stay far from \<open>2 ^ 1024\<close> seconds.
\<close>

definition roundTiesToEven :: "real \<Rightarrow> int" where
  "roundTiesToEven t =
     (let f = \<lfloor>t\<rfloor>
      in if t - of_int f < 1 / 2 then f
         else if 1 / 2 < t - of_int f then f + 1
         else if even f then f else f + 1)"

definition exponent :: "real \<Rightarrow> int" where
  "exponent y = max \<lfloor>log 2 y\<rfloor> (- 1022)"

definition ulp :: "real \<Rightarrow> real" where
  "ulp y = 2 powr (real_of_int (exponent y) - 52)"

definition roundPos :: "real \<Rightarrow> real" where
  "roundPos y = of_int (roundTiesToEven (y / ulp y)) * ulp y"

definition toDouble :: "real \<Rightarrow> real" where
  "toDouble y = (if y = 0 then 0 else if 0 < y then roundPos y else - roundPos (- y))"

text \<open>A real is a double when rounding leaves it as it is.\<close>

definition isDouble :: "real \<Rightarrow> bool" where
  "isDouble x = (toDouble x = x)"

section \<open>Data model (types.ts and the values the hook handles)\<close>

text \<open>
  The enum \<open>TeachingMode\<close> of types.ts. At run time each member is its string value;
  \<open>TeachingMode_value\<close> gives it, and \<open>includes_TeachingMode\<close> is the test
  \<^verbatim>\<open>Object.values(TeachingMode).includes(newMode)\<close> of the hook, returning the member found.
\<close>

datatype TeachingMode = CONVERSATION | CORRECTION | EXPLANATION | IDLE

fun TeachingMode_value :: "TeachingMode \<Rightarrow> string" where
  "TeachingMode_value CONVERSATION = ''Conversation Mode''"
| "TeachingMode_value CORRECTION = ''Correction Mode''"
| "TeachingMode_value EXPLANATION = ''Explanation Mode''"
| "TeachingMode_value IDLE = ''Ready to Start''"

definition Object_values_TeachingMode :: "TeachingMode list" where
  "Object_values_TeachingMode = [CONVERSATION, CORRECTION, EXPLANATION, IDLE]"

text \<open>
  The value found under \<^verbatim>\<open>fc.args.mode\<close>: a string, or anything else (undefined, a number,
  an object), which \<^verbatim>\<open>includes\<close> never finds among the enum's strings.
\<close>

datatype js_value = JString string | JOther

fun includes_TeachingMode :: "js_value \<Rightarrow> TeachingMode option" where
  "includes_TeachingMode (JString t) =
     find (\<lambda>m. TeachingMode_value m = t) Object_values_TeachingMode"
| "includes_TeachingMode JOther = None"

datatype role = User | Model

text \<open>
  \<open>ChatMessage\<close> of types.ts. \<open>isFinal\<close> is optional in the interface; every entry the
  hook creates sets it, so it is a boolean here. Strings are character lists and
  JavaScript's \<^verbatim>\<open>+\<close> on strings is \<open>@\<close>.
\<close>

record ChatMessage =
  msg_id :: string
  role :: role
  msg_text :: string
  timestamp :: nat
  isFinal :: bool

text \<open>Exceptions and promise rejections are values.\<close>

datatype js_error =
    TypeError string
  | ReferenceError string
  | Error string
  | DOMException string
  | DecodeError string

text \<open>
  What the hook reads of a Web Audio \<^verbatim>\<open>AudioBuffer\<close>: its length in sample frames and its
  sample rate; \<^verbatim>\<open>duration\<close> is their quotient in seconds, a double.
\<close>

record AudioBuffer =
  frames :: nat
  rate :: nat

definition duration :: "AudioBuffer \<Rightarrow> real" where
  "duration b = toDouble (real (frames b) / real (rate b))"

text \<open>
  An \<^verbatim>\<open>AudioBufferSourceNode\<close>: an object with an identity (\<open>sid\<close>) and its buffer. The
  \<^verbatim>\<open>Set\<close> of scheduled sources is a list in insertion order.
\<close>

record AudioBufferSourceNode =
  sid :: nat
  buffer :: AudioBuffer

text \<open>One call \<^verbatim>\<open>source.start(when)\<close>, as the audio sink sees it.\<close>

record segment =
  seg_source :: nat
  seg_start :: real
  seg_duration :: real

text \<open>The devices and handles the hook holds in its refs.\<close>

datatype resource =
    AudioContext nat
  | MediaStream
  | MediaStreamAudioSourceNode
  | ScriptProcessorNode
  | LiveSession

text \<open>
  The promise returned by \<^verbatim>\<open>ai.live.connect\<close>, by how it settles: never, rejected, or
  resolved with a session. A session's \<^verbatim>\<open>close\<close> may be missing (the hook tests for it),
  may succeed or may throw.
\<close>

datatype close_result = Closes | CloseThrows

datatype session_promise = Pending | Rejects | Resolves "close_result option"

record FunctionResponse =
  resp_id :: string
  resp_name :: string
  resp_result :: string

text \<open>
  The inbound message, as far as the hook reads it. \<open>fc_args\<close> is \<open>None\<close> when the call
  carries no \<^verbatim>\<open>args\<close> object; \<open>functionCalls\<close> is \<open>None\<close> when the tool call carries no list.
  \<open>inlineData\<close> is \<^verbatim>\<open>modelTurn?.parts?.[0]?.inlineData?.data\<close>.
\<close>

record FunctionCall =
  fc_id :: string
  fc_name :: string
  fc_args :: "js_value option"

record LiveServerToolCall =
  functionCalls :: "FunctionCall list option"

record LiveServerContent =
  inputTranscription :: "string option"
  outputTranscription :: "string option"
  turnComplete :: bool
  interrupted :: bool
  inlineData :: "string option"

record LiveServerMessage =
  toolCall :: "LiveServerToolCall option"
  serverContent :: "LiveServerContent option"

section \<open>The state of the hook and its surroundings\<close>

text \<open>
  The React state and the refs of \<open>useLiveSession\<close>, under their names in the source;
  \<open>currentMode\<close> is the state of the mode observer (the caller's \<^verbatim>\<open>onModeChange\<close> stores the
  mode it is given). The remaining fields record what the hook did to the outside:
  \<open>modeChanges\<close> the calls of \<^verbatim>\<open>onModeChange\<close>, \<open>sent\<close> the tool responses given to the
  transport, \<open>console\<close> the lines logged, \<open>started\<close> the calls of \<^verbatim>\<open>source.start\<close>,
  \<open>halted\<close> the sources that \<^verbatim>\<open>source.stop\<close> halted, \<open>acquired\<close> the resources opened
  (audio contexts, microphone stream, transport, audio nodes) and \<open>released\<close> the ones
  closed. \<open>nextSourceId\<close> numbers the source nodes created.
\<close>

record state =
  isConnected :: bool
  isSpeaking :: bool
  volume :: real
  error :: "string option"
  messages :: "ChatMessage list"
  inputContextRef :: "resource option"
  outputContextRef :: "resource option"
  sessionRef :: "session_promise option"
  inputSourceRef :: "resource option"
  processorRef :: "resource option"
  streamRef :: "resource option"
  nextStartTimeRef :: real
  scheduledSourcesRef :: "AudioBufferSourceNode list"
  currentMode :: TeachingMode
  modeChanges :: "TeachingMode list"
  sent :: "FunctionResponse list"
  console :: "string list"
  started :: "segment list"
  halted :: "nat list"
  acquired :: "resource list"
  released :: "resource list"
  nextSourceId :: nat

text \<open>
  What a handler reads from outside when it runs: the output context's clock
  (\<^verbatim>\<open>ctx.currentTime\<close>, a double), the wall clock (\<^verbatim>\<open>Date.now()\<close>), whether \<^verbatim>\<open>stop()\<close> throws on a given
  source, \<^verbatim>\<open>process.env.API_KEY\<close> (\<open>None\<close>: \<^verbatim>\<open>process\<close> is not defined; \<open>Some None\<close>: the
  variable is not set), whether the browser has an \<^verbatim>\<open>AudioContext\<close> class, the
  rejection of \<^verbatim>\<open>getUserMedia\<close> (\<open>None\<close>: it resolves with a stream) and the promise \<^verbatim>\<open>ai.live.connect\<close> returns.
\<close>

record env =
  currentTime :: real
  dateNow :: nat
  stopThrows :: "nat \<Rightarrow> bool"
  API_KEY :: "string option option"
  hasAudioContext :: bool
  getUserMedia :: "js_error option"
  liveConnect :: session_promise

text \<open>An async function returns the state it leaves and the rejection of its promise, if any.\<close>

type_synonym outcome = "state \<times> js_error option"

section \<open>Playback (stopPlayback, Handle Audio Output, onended)\<close>

text \<open>
  \<^verbatim>\<open>stopPlayback\<close>: every scheduled source is asked to stop inside \<^verbatim>\<open>try { } catch (e) {}\<close>, so
  a throwing \<^verbatim>\<open>stop()\<close> halts nothing and leaves no trace; then the set is cleared, the
  cursor reset and \<^verbatim>\<open>setIsSpeaking(false)\<close> called.
\<close>

definition stopPlayback :: "env \<Rightarrow> state \<Rightarrow> state" where
  "stopPlayback e s =
     s\<lparr>halted := halted s @ filter (\<lambda>i. \<not> stopThrows e i) (map sid (scheduledSourcesRef s)),
       scheduledSourcesRef := [],
       nextStartTimeRef := 0,
       isSpeaking := False\<rparr>"

text \<open>
  The audio branch of \<^verbatim>\<open>onmessage\<close>. The decoder (\<^verbatim>\<open>decodeAudioData\<close> after \<^verbatim>\<open>base64ToBytes\<close>, of
  utils/audioUtils) is the parameter \<open>dec\<close>; both run inside the \<^verbatim>\<open>try\<close>, whose \<^verbatim>\<open>catch\<close> logs
  and goes on. The empty string is falsy, so an empty payload is no payload. The cursor
  and the clock are doubles; comparing them is exact, and \<^verbatim>\<open>nextStartTimeRef.current +=
  audioBuffer.duration\<close> rounds the sum. The handler runs to its end before the next event
  is delivered.
\<close>

definition handleAudioOutput ::
  "(string \<Rightarrow> js_error + AudioBuffer) \<Rightarrow> env \<Rightarrow> string option \<Rightarrow> state \<Rightarrow> state" where
  "handleAudioOutput dec e base64Audio s =
     (case base64Audio of
        None \<Rightarrow> s
      | Some b64 \<Rightarrow>
          if b64 = [] \<or> outputContextRef s = None then s
          else
            let s1 = s\<lparr>isSpeaking := True\<rparr>;
                s2 = (if nextStartTimeRef s1 < currentTime e
                      then s1\<lparr>nextStartTimeRef := currentTime e\<rparr> else s1)
            in (case dec b64 of
                  Inl err \<Rightarrow> s2\<lparr>console := console s2 @ [''Audio decoding error'']\<rparr>
                | Inr audioBuffer \<Rightarrow>
                    s2\<lparr>started := started s2 @
                          [\<lparr>seg_source = nextSourceId s2,
                            seg_start = nextStartTimeRef s2,
                            seg_duration = duration audioBuffer\<rparr>],
                       nextStartTimeRef := toDouble (nextStartTimeRef s2 + duration audioBuffer),
                       scheduledSourcesRef := scheduledSourcesRef s2 @
                          [\<lparr>sid = nextSourceId s2, buffer = audioBuffer\<rparr>],
                       nextSourceId := Suc (nextSourceId s2)\<rparr>))"


section \<open>Transcript (Handle Transcriptions)\<close>

text \<open>\<^verbatim>\<open>Date.now().toString()\<close>: the decimal digits of a natural number.\<close>

fun toString :: "nat \<Rightarrow> string" where
  "toString n =
     (if n < 10 then [''0123456789'' ! n]
      else toString (n div 10) @ [''0123456789'' ! (n mod 10)])"

declare toString.simps [simp del]

definition lastMsg :: "ChatMessage list \<Rightarrow> ChatMessage option" where
  "lastMsg newMsgs = (if newMsgs = [] then None else Some (last newMsgs))"

definition newEntry :: "nat \<Rightarrow> role \<Rightarrow> string \<Rightarrow> ChatMessage" where
  "newEntry now r t =
     \<lparr>msg_id = toString now @ (case r of User \<Rightarrow> ''-user'' | Model \<Rightarrow> ''-model''),
      role = r, msg_text = t, timestamp = now, isFinal = False\<rparr>"

text \<open>
  One branch of the first updater: the fragment \<open>t\<close> of role \<open>r\<close> joins the last entry when
  that entry has the role and is not final, and opens a new entry otherwise.
\<close>

definition mergeFragment :: "nat \<Rightarrow> role \<Rightarrow> string \<Rightarrow> ChatMessage list \<Rightarrow> ChatMessage list" where
  "mergeFragment now r t prev =
     (case lastMsg prev of
        Some l \<Rightarrow>
          if role l = r \<and> \<not> isFinal l
          then butlast prev @ [l\<lparr>msg_text := msg_text l @ t\<rparr>]
          else prev @ [newEntry now r t]
      | None \<Rightarrow> prev @ [newEntry now r t])"

text \<open>A transcription text that is absent or empty is falsy.\<close>

fun truthy :: "string option \<Rightarrow> bool" where
  "truthy None = False"
| "truthy (Some t) = (t \<noteq> [])"

text \<open>
  The updater given to \<^verbatim>\<open>setMessages\<close> when \<^verbatim>\<open>inputTx || outputTx\<close>: the input branch returns,
  so the output branch runs only when there is no input text.
\<close>

definition transcriptionUpdater ::
  "nat \<Rightarrow> string option \<Rightarrow> string option \<Rightarrow> ChatMessage list \<Rightarrow> ChatMessage list" where
  "transcriptionUpdater now inputTx outputTx prev =
     (case (if truthy inputTx then inputTx else None,
            if truthy outputTx then outputTx else None) of
        (Some t, _) \<Rightarrow> mergeFragment now User t prev
      | (None, Some t) \<Rightarrow> mergeFragment now Model t prev
      | (None, None) \<Rightarrow> prev)"

definition turnCompleteUpdater :: "ChatMessage list \<Rightarrow> ChatMessage list" where
  "turnCompleteUpdater prev =
     (case lastMsg prev of
        Some l \<Rightarrow> if \<not> isFinal l then butlast prev @ [l\<lparr>isFinal := True\<rparr>] else prev
      | None \<Rightarrow> prev)"

definition interruptedUpdater :: "ChatMessage list \<Rightarrow> ChatMessage list" where
  "interruptedUpdater prev =
     (case lastMsg prev of
        Some l \<Rightarrow>
          if \<not> isFinal l \<and> role l = Model
          then butlast prev @ [l\<lparr>isFinal := True, msg_text := msg_text l @ '' ...''\<rparr>]
          else prev
      | None \<Rightarrow> prev)"

definition handleTranscriptions :: "env \<Rightarrow> LiveServerContent \<Rightarrow> state \<Rightarrow> state" where
  "handleTranscriptions e sc s =
     (let inputTx = inputTranscription sc;
          outputTx = outputTranscription sc;
          s1 = (if truthy inputTx \<or> truthy outputTx
                then s\<lparr>messages := transcriptionUpdater (dateNow e) inputTx outputTx (messages s)\<rparr>
                else s);
          s2 = (if turnComplete sc
                then s1\<lparr>messages := turnCompleteUpdater (messages s1)\<rparr> else s1)
      in if interrupted sc then s2\<lparr>messages := interruptedUpdater (messages s2)\<rparr> else s2)"

section \<open>Tool calls (Handle Tool Calls)\<close>

text \<open>The caller's \<^verbatim>\<open>onModeChange\<close>: it stores the mode; the call is recorded.\<close>

definition onModeChange :: "TeachingMode \<Rightarrow> state \<Rightarrow> state" where
  "onModeChange m s = s\<lparr>currentMode := m, modeChanges := modeChanges s @ [m]\<rparr>"

text \<open>
  \<^verbatim>\<open>sessionPromise.then(session => session.sendToolResponse(...))\<close>: \<^verbatim>\<open>onmessage\<close> runs on a
  transport whose promise has resolved, so the response is handed to the transport.
\<close>

definition functionResponse :: "FunctionCall \<Rightarrow> FunctionResponse" where
  "functionResponse fc =
     \<lparr>resp_id = fc_id fc, resp_name = fc_name fc, resp_result = ''Mode updated''\<rparr>"

definition sendToolResponse :: "FunctionCall \<Rightarrow> state \<Rightarrow> state" where
  "sendToolResponse fc s = s\<lparr>sent := sent s @ [functionResponse fc]\<rparr>"

text \<open>
  The loop over \<^verbatim>\<open>message.toolCall.functionCalls\<close>. Reading \<^verbatim>\<open>.mode\<close> of a missing \<^verbatim>\<open>args\<close>
  throws; the exception leaves the loop and the handler, keeping what was done before.
\<close>

fun forFunctionCalls :: "FunctionCall list \<Rightarrow> state \<Rightarrow> outcome" where
  "forFunctionCalls [] s = (s, None)"
| "forFunctionCalls (fc # fcs) s =
     (if fc_name fc = ''setTeachingMode'' then
        (case fc_args fc of
           None \<Rightarrow> (s, Some (TypeError ''Cannot read properties of undefined''))
         | Some newMode \<Rightarrow>
             forFunctionCalls fcs
               (sendToolResponse fc
                  (case includes_TeachingMode newMode of
                     Some m \<Rightarrow> onModeChange m s
                   | None \<Rightarrow> s)))
      else forFunctionCalls fcs s)"

definition handleToolCalls :: "LiveServerMessage \<Rightarrow> state \<Rightarrow> outcome" where
  "handleToolCalls message s =
     (case toolCall message of
        None \<Rightarrow> (s, None)
      | Some tc \<Rightarrow>
          (case functionCalls tc of
             None \<Rightarrow> (s, Some (TypeError ''undefined is not iterable''))
           | Some fcs \<Rightarrow> forFunctionCalls fcs s))"

section \<open>The message handler (onmessage)\<close>

definition onmessage ::
  "(string \<Rightarrow> js_error + AudioBuffer) \<Rightarrow> env \<Rightarrow> LiveServerMessage \<Rightarrow> state \<Rightarrow> outcome" where
  "onmessage dec e message s =
     (case handleToolCalls message s of
        (s1, Some err) \<Rightarrow> (s1, Some err)
      | (s1, None) \<Rightarrow>
          (case serverContent message of
             None \<Rightarrow> (s1, None)
           | Some sc \<Rightarrow>
               let s2 = handleTranscriptions e sc s1;
                   s3 = handleAudioOutput dec e (inlineData sc) s2
               in (if interrupted sc then stopPlayback e s3 else s3, None)))"

text \<open>A run of inbound messages, each with what its handler reads from outside.\<close>

fun onmessages ::
  "(string \<Rightarrow> js_error + AudioBuffer) \<Rightarrow> (env \<times> LiveServerMessage) list \<Rightarrow> state \<Rightarrow> state" where
  "onmessages dec [] s = s"
| "onmessages dec (em # ems) s = onmessages dec ems (fst (onmessage dec (fst em) (snd em) s))"

section \<open>Teardown (stopAudioProcessing, disconnect)\<close>

text \<open>A ref that holds a handle is released and set to null; a null ref is skipped.\<close>

definition releaseRef :: "resource option \<Rightarrow> state \<Rightarrow> state" where
  "releaseRef r s = (case r of None \<Rightarrow> s | Some h \<Rightarrow> s\<lparr>released := released s @ [h]\<rparr>)"

definition stopAudioProcessing :: "state \<Rightarrow> state" where
  "stopAudioProcessing s =
     (let s1 = (releaseRef (processorRef s) s)\<lparr>processorRef := None\<rparr>;
          s2 = (releaseRef (inputSourceRef s1) s1)\<lparr>inputSourceRef := None\<rparr>;
          s3 = (releaseRef (streamRef s2) s2)\<lparr>streamRef := None\<rparr>
      in (releaseRef (inputContextRef s3) s3)\<lparr>inputContextRef := None\<rparr>)"

text \<open>
  \<^verbatim>\<open>sessionRef.current.then(close-if-it-can).catch(log)\<close>: a rejected promise and a throwing
  \<^verbatim>\<open>close\<close> both end in the \<^verbatim>\<open>catch\<close>, which logs.
\<close>

fun closeSession :: "session_promise \<Rightarrow> state \<Rightarrow> state" where
  "closeSession Pending s = s"
| "closeSession Rejects s = s\<lparr>console := console s @ [''Error closing session'']\<rparr>"
| "closeSession (Resolves None) s = s"
| "closeSession (Resolves (Some Closes)) s = s\<lparr>released := released s @ [LiveSession]\<rparr>"
| "closeSession (Resolves (Some CloseThrows)) s =
     s\<lparr>console := console s @ [''Error closing session'']\<rparr>"

definition disconnect :: "env \<Rightarrow> state \<Rightarrow> outcome" where
  "disconnect e s =
     (let s1 = stopAudioProcessing s;
          s2 = stopPlayback e s1;
          s3 = (case sessionRef s2 of None \<Rightarrow> s2 | Some p \<Rightarrow> closeSession p s2);
          s4 = (releaseRef (outputContextRef s3) s3)\<lparr>outputContextRef := None\<rparr>;
          s5 = onModeChange IDLE (s4\<lparr>sessionRef := None, isConnected := False\<rparr>)
      in (s5\<lparr>volume := 0\<rparr>, None))"

section \<open>Connecting (connect, onopen)\<close>

fun message_of :: "js_error \<Rightarrow> string" where
  "message_of (TypeError m) = m"
| "message_of (ReferenceError m) = m"
| "message_of (Error m) = m"
| "message_of (DOMException m) = m"
| "message_of (DecodeError m) = m"

text \<open>The \<^verbatim>\<open>catch\<close> of \<open>connect\<close>: log the exception, set the error text, disconnect.\<close>

definition connectCatch :: "env \<Rightarrow> js_error \<Rightarrow> state \<Rightarrow> outcome" where
  "connectCatch e err s =
     (fst (disconnect e
        (s\<lparr>console := console s @ [message_of err],
           error := Some ''Failed to initialize session. API Key may be missing.''\<rparr>)),
      None)"

text \<open>
  \<open>connect\<close>, in the order of the source: clear error and messages, read the key (a
  missing \<^verbatim>\<open>process\<close> is caught and logged, leaving the empty key), throw on an empty key,
  create the two audio contexts, await the microphone, call \<^verbatim>\<open>ai.live.connect\<close>, build the
  capture nodes. Every exception goes to the \<^verbatim>\<open>catch\<close>.
\<close>

definition readApiKey :: "env \<Rightarrow> string" where
  "readApiKey e = (case API_KEY e of None \<Rightarrow> [] | Some None \<Rightarrow> [] | Some (Some k) \<Rightarrow> k)"

definition connect :: "env \<Rightarrow> state \<Rightarrow> outcome" where
  "connect e s =
     (let s1 = s\<lparr>error := None, messages := []\<rparr>;
          s2 = (case API_KEY e of
                  None \<Rightarrow> s1\<lparr>console := console s1 @ [''process.env is not defined'']\<rparr>
                | Some k \<Rightarrow> s1);
          apiKey = readApiKey e
      in if apiKey = [] then
           connectCatch e (Error ''API Key is missing. Ensure process.env.API_KEY is set.'') s2
         else if \<not> hasAudioContext e then
           connectCatch e (TypeError ''AudioContext is not a constructor'') s2
         else
           let s3 = s2\<lparr>inputContextRef := Some (AudioContext 16000),
                      outputContextRef := Some (AudioContext 24000),
                      acquired := acquired s2 @ [AudioContext 16000, AudioContext 24000]\<rparr>
           in (case getUserMedia e of
                 Some err \<Rightarrow> connectCatch e err s3
               | None \<Rightarrow>
                   let s4 = s3\<lparr>streamRef := Some MediaStream,
                              acquired := acquired s3 @ [MediaStream]\<rparr>;
                       s5 = s4\<lparr>sessionRef := Some (liveConnect e),
                              acquired := acquired s4 @ [LiveSession]\<rparr>
                   in (s5\<lparr>inputSourceRef := Some MediaStreamAudioSourceNode,
                          processorRef := Some ScriptProcessorNode,
                          acquired := acquired s5 @
                            [MediaStreamAudioSourceNode, ScriptProcessorNode]\<rparr>, None)))"

definition onopen :: "state \<Rightarrow> state" where
  "onopen s =
     onModeChange CONVERSATION
       (s\<lparr>console := console s @ [''Connection opened''], isConnected := True\<rparr>)"

section \<open>Initial state and sample surroundings\<close>

text \<open>
  The state of a freshly mounted hook: the initial values of its \<^verbatim>\<open>useState\<close> and \<^verbatim>\<open>useRef\<close>
  calls, and the caller's initial mode.
\<close>

definition initialState :: state where
  "initialState =
     \<lparr>isConnected = False, isSpeaking = False, volume = 0, error = None, messages = [],
      inputContextRef = None, outputContextRef = None, sessionRef = None,
      inputSourceRef = None, processorRef = None, streamRef = None,
      nextStartTimeRef = 0, scheduledSourcesRef = [], currentMode = IDLE,
      modeChanges = [], sent = [], console = [], started = [], halted = [],
      acquired = [], released = [], nextSourceId = 0\<rparr>"

text \<open>
  Modelled from the spec: utils/audioUtils.ts (\<^verbatim>\<open>base64ToBytes\<close>) is not among the sources.
  Section 4.1 of the specification: a reversible binary-to-text transport encoding. The
  payload is base64 text, where four characters carry three bytes, less the padding; only
  the number of bytes is needed here.
\<close>

definition base64ByteLength :: "string \<Rightarrow> nat" where
  "base64ByteLength b64 =
     3 * (length b64 div 4) - length (takeWhile (\<lambda>c. c = CHR ''='') (rev b64))"

text \<open>
  Modelled from the spec: utils/audioUtils.ts (\<^verbatim>\<open>decodeAudioData\<close>) is not among the sources.
  Section 4.2 of the specification: the bytes are signed 16-bit mono PCM, the buffer is
  tagged with the target sample rate, and decoding fails if the byte length is not a
  multiple of 2. The handler takes its decoder as a parameter and the theorems hold for
  every decoder; this one serves their instances.
\<close>

definition decodeAudioData :: "nat \<Rightarrow> string \<Rightarrow> js_error + AudioBuffer" where
  "decodeAudioData targetSampleRate b64 =
     (let n = base64ByteLength b64
      in if odd n then Inl (DecodeError ''byte length is not a multiple of 2'')
         else Inr \<lparr>frames = n div 2, rate = targetSampleRate\<rparr>)"

text \<open>Surroundings for the instances: a clock reading, a key, a microphone that is granted.\<close>

definition sampleEnv :: "real \<Rightarrow> env" where
  "sampleEnv t =
     \<lparr>currentTime = t, dateNow = 1000, stopThrows = (\<lambda>i. False),
      API_KEY = Some (Some ''key''), hasAudioContext = True, getUserMedia = None,
      liveConnect = Resolves (Some Closes)\<rparr>"

section \<open>Inbound events as messages\<close>

text \<open>
  The messages that carry exactly one event: a transcript fragment of one side, the
  turn-complete signal, the interrupted signal, an audio payload, a tool call.
\<close>

definition emptyContent :: LiveServerContent where
  "emptyContent =
     \<lparr>inputTranscription = None, outputTranscription = None,
      turnComplete = False, interrupted = False, inlineData = None\<rparr>"

definition deltaMessage :: "role \<Rightarrow> string \<Rightarrow> LiveServerMessage" where
  "deltaMessage r t =
     \<lparr>toolCall = None,
      serverContent = Some
        (case r of
           User \<Rightarrow> emptyContent\<lparr>inputTranscription := Some t\<rparr>
         | Model \<Rightarrow> emptyContent\<lparr>outputTranscription := Some t\<rparr>)\<rparr>"

definition turnCompleteMessage :: LiveServerMessage where
  "turnCompleteMessage =
     \<lparr>toolCall = None, serverContent = Some (emptyContent\<lparr>turnComplete := True\<rparr>)\<rparr>"

definition interruptedMessage :: LiveServerMessage where
  "interruptedMessage =
     \<lparr>toolCall = None, serverContent = Some (emptyContent\<lparr>interrupted := True\<rparr>)\<rparr>"

definition audioMessage :: "string \<Rightarrow> LiveServerMessage" where
  "audioMessage b64 =
     \<lparr>toolCall = None, serverContent = Some (emptyContent\<lparr>inlineData := Some b64\<rparr>)\<rparr>"

definition toolCallMessage :: "FunctionCall list \<Rightarrow> LiveServerMessage" where
  "toolCallMessage fcs =
     \<lparr>toolCall = Some \<lparr>functionCalls = Some fcs\<rparr>, serverContent = None\<rparr>"

section \<open>The transcript log as the specification describes it\<close>

text \<open>
  An entry of the log as the specification writes it: role, text, final or open. The two
  operations follow the specification's words: a delta joins the last entry when that
  entry is open and of the delta's role, and opens a new open entry otherwise;
  turn-complete makes the last entry final if it is open.
\<close>

type_synonym entry = "role \<times> string \<times> bool"

datatype transcript_event = Delta role string | TurnComplete

definition entry_of :: "ChatMessage \<Rightarrow> entry" where
  "entry_of m = (role m, msg_text m, isFinal m)"

fun spec_step :: "entry list \<Rightarrow> transcript_event \<Rightarrow> entry list" where
  "spec_step ents (Delta r t) =
     (if ents \<noteq> [] \<and> fst (last ents) = r \<and> \<not> snd (snd (last ents))
      then butlast ents @ [(r, fst (snd (last ents)) @ t, False)]
      else ents @ [(r, t, False)])"
| "spec_step ents TurnComplete =
     (if ents \<noteq> [] \<and> \<not> snd (snd (last ents))
      then butlast ents @ [(fst (last ents), fst (snd (last ents)), True)]
      else ents)"

fun eventMessage :: "transcript_event \<Rightarrow> LiveServerMessage" where
  "eventMessage (Delta r t) = deltaMessage r t"
| "eventMessage TurnComplete = turnCompleteMessage"

text \<open>A fragment with empty text is falsy: the hook sees no delta in it.\<close>

fun nonempty_event :: "transcript_event \<Rightarrow> bool" where
  "nonempty_event (Delta r t) = (t \<noteq> [])"
| "nonempty_event TurnComplete = True"

section \<open>Notions used in the properties\<close>

text \<open>A message that carries the interrupted signal: its handler ends in \<open>stopPlayback\<close>.\<close>

definition isInterrupted :: "LiveServerMessage \<Rightarrow> bool" where
  "isInterrupted m = (case serverContent m of None \<Rightarrow> False | Some sc \<Rightarrow> interrupted sc)"

text \<open>
  A schedule is back to back when each segment starts no earlier than the start of the one
  before it plus that one's duration, the sum taken exactly. It is chained by the cursor
  when each segment starts no earlier than the double nearest to that sum, which is the
  value the cursor takes. \<open>after_cursor c\<close> says the latter of a schedule that follows a
  cursor \<open>c\<close>, and that every start is a double and no duration is negative;
  \<open>cursor_after\<close> is the cursor after its last segment.
\<close>

fun back_to_back :: "segment list \<Rightarrow> bool" where
  "back_to_back [] = True"
| "back_to_back [x] = True"
| "back_to_back (x # y # zs) =
     (seg_start x + seg_duration x \<le> seg_start y \<and> back_to_back (y # zs))"

fun cursor_chained :: "segment list \<Rightarrow> bool" where
  "cursor_chained [] = True"
| "cursor_chained [x] = True"
| "cursor_chained (x # y # zs) =
     (toDouble (seg_start x + seg_duration x) \<le> seg_start y \<and> cursor_chained (y # zs))"

fun after_cursor :: "real \<Rightarrow> segment list \<Rightarrow> bool" where
  "after_cursor c [] = True"
| "after_cursor c (x # xs) =
     (c \<le> seg_start x \<and> isDouble (seg_start x) \<and> 0 \<le> seg_duration x \<and>
      after_cursor (toDouble (seg_start x + seg_duration x)) xs)"

fun cursor_after :: "real \<Rightarrow> segment list \<Rightarrow> real" where
  "cursor_after c [] = c"
| "cursor_after c (x # xs) = cursor_after (toDouble (seg_start x + seg_duration x)) xs"

text \<open>A run of messages in which playback is never stopped and every clock reading is a
  double.\<close>

definition uninterrupted :: "(env \<times> LiveServerMessage) list \<Rightarrow> bool" where
  "uninterrupted ems =
     list_all (\<lambda>em. \<not> isInterrupted (snd em) \<and> isDouble (currentTime (fst em))) ems"

text \<open>The state of a session that has connected and opened.\<close>

definition connectedState :: state where
  "connectedState = onopen (fst (connect (sampleEnv 0) initialState))"

text \<open>The calls of a tool-call message that name the mode-update tool, and the modes they
  request that the enum knows.\<close>

definition modeUpdateCalls :: "FunctionCall list \<Rightarrow> FunctionCall list" where
  "modeUpdateCalls fcs = filter (\<lambda>fc. fc_name fc = ''setTeachingMode'') fcs"

definition requestedMode :: "FunctionCall \<Rightarrow> TeachingMode option" where
  "requestedMode fc =
     (case fc_args fc of None \<Rightarrow> None | Some newMode \<Rightarrow> includes_TeachingMode newMode)"

definition recognizedModes :: "FunctionCall list \<Rightarrow> TeachingMode list" where
  "recognizedModes fcs = List.map_filter requestedMode (modeUpdateCalls fcs)"

text \<open>What a teardown releases for a ref, and what closing the transport releases and logs.\<close>

fun refHandle :: "resource option \<Rightarrow> resource list" where
  "refHandle None = []"
| "refHandle (Some h) = [h]"

fun sessionClosed :: "session_promise option \<Rightarrow> resource list" where
  "sessionClosed (Some (Resolves (Some Closes))) = [LiveSession]"
| "sessionClosed p = []"

fun sessionCloseLog :: "session_promise option \<Rightarrow> string list" where
  "sessionCloseLog (Some Rejects) = [''Error closing session'']"
| "sessionCloseLog (Some (Resolves (Some CloseThrows))) = [''Error closing session'']"
| "sessionCloseLog p = []"

text \<open>A step from \<open>s\<close> to \<open>s'\<close> commits no resource when it opens none.\<close>

definition commitsNothing :: "state \<Rightarrow> state \<Rightarrow> bool" where
  "commitsNothing s s' = (acquired s' = acquired s)"



section \<open>Rounding to a double\<close>

lemma rne_cases: "roundTiesToEven t = \<lfloor>t\<rfloor> \<or> roundTiesToEven t = \<lfloor>t\<rfloor> + 1"
  by (simp add: roundTiesToEven_def Let_def)

lemma rne_int [simp]: "roundTiesToEven (of_int k) = k"
  by (simp add: roundTiesToEven_def)

lemma rne_mono: "s \<le> t \<Longrightarrow> roundTiesToEven s \<le> roundTiesToEven t"
proof -
  assume st: "s \<le> t"
  then have fl: "\<lfloor>s\<rfloor> \<le> \<lfloor>t\<rfloor>" by (rule floor_mono)
  show ?thesis
  proof (cases "\<lfloor>s\<rfloor> = \<lfloor>t\<rfloor>")
    case True
    with st show ?thesis
      by (auto simp: roundTiesToEven_def Let_def)
  next
    case False
    with fl have "\<lfloor>s\<rfloor> + 1 \<le> \<lfloor>t\<rfloor>" by simp
    moreover have "roundTiesToEven s \<le> \<lfloor>s\<rfloor> + 1" using rne_cases [of s] by auto
    moreover have "\<lfloor>t\<rfloor> \<le> roundTiesToEven t" using rne_cases [of t] by auto
    ultimately show ?thesis by linarith
  qed
qed

lemma ulp_pos: "0 < ulp y"
  by (simp add: ulp_def)

lemma below_next_binade: "0 < y \<Longrightarrow> y < 2 powr (of_int (exponent y + 1))"
proof -
  assume y: "0 < y"
  have "y < 2 powr (of_int (\<lfloor>log 2 y\<rfloor> + 1))"
    using floor_log_eq_powr_iff [of y 2 "\<lfloor>log 2 y\<rfloor>"] y by simp
  also have "\<dots> \<le> 2 powr (of_int (exponent y + 1))"
    by (simp add: exponent_def)
  finally show ?thesis .
qed

lemma above_binade:
  "0 < y \<Longrightarrow> - 1022 < exponent y \<Longrightarrow> 2 powr (of_int (exponent y)) \<le> y"
proof -
  assume y: "0 < y" and e: "- 1022 < exponent y"
  then have "exponent y = \<lfloor>log 2 y\<rfloor>" by (simp add: exponent_def max_def split: if_splits)
  then show ?thesis
    using floor_log_eq_powr_iff [of y 2 "\<lfloor>log 2 y\<rfloor>"] y by simp
qed

lemma exponent_mono: "0 < x \<Longrightarrow> x \<le> y \<Longrightarrow> exponent x \<le> exponent y"
  unfolding exponent_def
  by (intro max.mono floor_mono) (simp_all)

lemma binade_ulp: "2 powr (real_of_int e + 1) = 2 ^ 53 * 2 powr (real_of_int e - 52)"
proof -
  have "(2::real) powr (real_of_int e + 1) = 2 powr (53 + (real_of_int e - 52))"
    by (simp add: algebra_simps)
  also have "\<dots> = 2 powr 53 * 2 powr (real_of_int e - 52)" by (rule powr_add)
  finally show ?thesis by simp
qed

lemma binade_ulp0: "2 powr (real_of_int e) = 2 ^ 52 * 2 powr (real_of_int e - 52)"
proof -
  have "(2::real) powr (real_of_int e) = 2 powr (52 + (real_of_int e - 52))" by simp
  also have "\<dots> = 2 powr 52 * 2 powr (real_of_int e - 52)" by (rule powr_add)
  finally show ?thesis by simp
qed

lemma mantissa_le: "0 < y \<Longrightarrow> roundTiesToEven (y / ulp y) \<le> 2 ^ 53"
proof -
  assume y: "0 < y"
  have "y / ulp y \<le> 2 ^ 53"
    using below_next_binade [OF y] ulp_pos [of y]
    by (simp add: binade_ulp ulp_def pos_divide_le_eq del: powr_add)
  then have "roundTiesToEven (y / ulp y) \<le> roundTiesToEven (of_int (2 ^ 53))"
    by (intro rne_mono) simp
  then show ?thesis by (simp only: rne_int)
qed

lemma mantissa_ge:
  "0 < y \<Longrightarrow> - 1022 < exponent y \<Longrightarrow> 2 ^ 52 \<le> roundTiesToEven (y / ulp y)"
proof -
  assume y: "0 < y" and e: "- 1022 < exponent y"
  have "2 ^ 52 \<le> y / ulp y"
    using above_binade [OF y e] ulp_pos [of y]
    by (simp add: binade_ulp0 [of "exponent y"] ulp_def pos_le_divide_eq)
  then have "roundTiesToEven (of_int (2 ^ 52)) \<le> roundTiesToEven (y / ulp y)"
    by (intro rne_mono) simp
  then show ?thesis by (simp only: rne_int)
qed

lemma mantissa_nonneg: "0 < y \<Longrightarrow> 0 \<le> roundTiesToEven (y / ulp y)"
proof -
  assume "0 < y"
  then have "0 \<le> y / ulp y" using ulp_pos [of y] by simp
  then have "roundTiesToEven (of_int 0) \<le> roundTiesToEven (y / ulp y)"
    by (intro rne_mono) simp
  then show ?thesis unfolding rne_int .
qed

lemma roundPos_nonneg: "0 < y \<Longrightarrow> 0 \<le> roundPos y"
  using mantissa_nonneg [of y] ulp_pos [of y] by (simp add: roundPos_def)

lemma roundPos_le_binade: "0 < y \<Longrightarrow> roundPos y \<le> 2 powr (of_int (exponent y + 1))"
proof -
  assume y: "0 < y"
  have "of_int (roundTiesToEven (y / ulp y)) \<le> (2 ^ 53 :: real)"
    using mantissa_le [OF y] by (metis of_int_le_iff of_int_numeral of_int_power)
  then have "roundPos y \<le> 2 ^ 53 * ulp y"
    unfolding roundPos_def using ulp_pos [of y] by (intro mult_right_mono) simp_all
  then show ?thesis by (simp add: binade_ulp ulp_def)
qed

lemma roundPos_ge_binade:
  "0 < y \<Longrightarrow> - 1022 < exponent y \<Longrightarrow> 2 powr (of_int (exponent y)) \<le> roundPos y"
proof -
  assume y: "0 < y" and e: "- 1022 < exponent y"
  have "(2 ^ 52 :: real) \<le> of_int (roundTiesToEven (y / ulp y))"
    using mantissa_ge [OF y e] by (metis of_int_le_iff of_int_numeral of_int_power)
  then have "2 ^ 52 * ulp y \<le> roundPos y"
    unfolding roundPos_def using ulp_pos [of y] by (intro mult_right_mono) simp_all
  then show ?thesis by (simp add: binade_ulp0 [of "exponent y"] ulp_def)
qed

lemma roundPos_mono: "0 < x \<Longrightarrow> x \<le> y \<Longrightarrow> roundPos x \<le> roundPos y"
proof -
  assume x: "0 < x" and xy: "x \<le> y"
  then have y: "0 < y" by simp
  from exponent_mono [OF x xy] have e: "exponent x \<le> exponent y" .
  show ?thesis
  proof (cases "exponent x = exponent y")
    case True
    then have u: "ulp x = ulp y" by (simp add: ulp_def)
    have "x / ulp y \<le> y / ulp y" using xy ulp_pos [of y] by (simp add: divide_right_mono)
    then have "roundTiesToEven (x / ulp y) \<le> roundTiesToEven (y / ulp y)" by (rule rne_mono)
    then show ?thesis
      unfolding roundPos_def u using ulp_pos [of y] by (intro mult_right_mono) simp_all
  next
    case False
    with e have lt: "exponent x + 1 \<le> exponent y" by simp
    have "- 1022 \<le> exponent x" by (simp add: exponent_def)
    with lt have big: "- 1022 < exponent y" by simp
    have "roundPos x \<le> 2 powr (of_int (exponent x + 1))" by (rule roundPos_le_binade [OF x])
    also have "\<dots> \<le> 2 powr (of_int (exponent y))" using lt by simp
    also have "\<dots> \<le> roundPos y" by (rule roundPos_ge_binade [OF y big])
    finally show ?thesis .
  qed
qed

lemma toDouble_mono: "x \<le> y \<Longrightarrow> toDouble x \<le> toDouble y"
proof -
  assume xy: "x \<le> y"
  consider "0 < x" | "x \<le> 0" "0 \<le> y" | "y < 0" by linarith
  then show ?thesis
  proof cases
    case 1
    with xy roundPos_mono [of x y] show ?thesis by (simp add: toDouble_def)
  next
    case 2
    have "toDouble x \<le> 0" using roundPos_nonneg [of "- x"] 2 by (simp add: toDouble_def)
    moreover have "0 \<le> toDouble y" using roundPos_nonneg [of y] 2 by (simp add: toDouble_def)
    ultimately show ?thesis by simp
  next
    case 3
    with xy have "0 < - y" "- y \<le> - x" by simp_all
    from roundPos_mono [OF this] 3 xy show ?thesis by (simp add: toDouble_def)
  qed
qed


lemma exponent_ge: "- 1022 \<le> exponent y"
  by (simp add: exponent_def)

lemma exponent_eqI:
  assumes "0 < r" and "r < 2 powr (real_of_int e + 1)"
    and "- 1022 < e \<longrightarrow> 2 powr (real_of_int e) \<le> r" and "- 1022 \<le> e"
  shows "exponent r = e"
proof -
  have "log 2 r < real_of_int e + 1"
    using assms(1,2) by (simp add: log_less_iff)
  then have up: "\<lfloor>log 2 r\<rfloor> \<le> e" by (simp add: floor_le_iff)
  show ?thesis
  proof (cases "- 1022 < e")
    case True
    with assms(3) have "real_of_int e \<le> log 2 r"
      using assms(1) by (simp add: le_log_iff)
    then have "e \<le> \<lfloor>log 2 r\<rfloor>" by (simp add: le_floor_iff)
    with up True show ?thesis by (simp add: exponent_def)
  next
    case False
    with assms(4) have "e = - 1022" by simp
    with up show ?thesis by (simp add: exponent_def)
  qed
qed

lemma roundPos_eval:
  assumes "0 < y" and "2 powr (real_of_int k) \<le> y" and "y < 2 powr (real_of_int k + 1)"
    and "- 1022 \<le> k"
  shows "roundPos y =
    of_int (roundTiesToEven (y / 2 powr (real_of_int k - 52))) * 2 powr (real_of_int k - 52)"
proof -
  have "exponent y = k" using assms by (intro exponent_eqI) simp_all
  then show ?thesis by (simp add: roundPos_def ulp_def)
qed

lemma roundPos_idem: "0 < y \<Longrightarrow> toDouble (roundPos y) = roundPos y"
proof -
  assume y: "0 < y"
  define m where "m = roundTiesToEven (y / ulp y)"
  define e where "e = exponent y"
  define u where "u = ulp y"
  have u: "u = 2 powr (real_of_int e - 52)" "0 < u" by (simp_all add: u_def e_def ulp_def)
  have r: "roundPos y = of_int m * u" by (simp add: roundPos_def m_def u_def)
  have m0: "0 \<le> m" "m \<le> 2 ^ 53"
    using mantissa_nonneg [OF y] mantissa_le [OF y] by (simp_all add: m_def)
  have e: "- 1022 \<le> e" by (simp add: e_def exponent_ge)
  consider "m = 0" | "m = 2 ^ 53" | "0 < m" "m < 2 ^ 53" using m0 by linarith
  then show ?thesis
  proof cases
    case 1
    then show ?thesis by (simp add: r toDouble_def)
  next
    case 2
    then have r2: "roundPos y = 2 powr (real_of_int (e + 1))"
      by (simp add: r u binade_ulp)
    have pos: "0 < roundPos y" by (simp add: r2)
    have "exponent (roundPos y) = e + 1"
      using e by (intro exponent_eqI) (simp_all add: r2)
    then have "roundPos (roundPos y) =
        of_int (roundTiesToEven (roundPos y / 2 powr (real_of_int (e + 1) - 52))) *
          2 powr (real_of_int (e + 1) - 52)"
      by (simp add: roundPos_def ulp_def)
    also have "roundPos y / 2 powr (real_of_int (e + 1) - 52) = of_int (2 ^ 52)"
    proof -
      have "roundPos y = 2 ^ 52 * 2 powr (real_of_int (e + 1) - 52)"
        unfolding r2 by (rule binade_ulp0)
      then show ?thesis by simp
    qed
    also have "of_int (roundTiesToEven (of_int (2 ^ 52))) * 2 powr (real_of_int (e + 1) - 52) =
        roundPos y"
      unfolding r2 rne_int using binade_ulp0 [of "e + 1"] by simp
    finally show ?thesis using pos by (simp add: toDouble_def)
  next
    case 3
    have pos: "0 < roundPos y" using 3 u by (simp add: r)
    have "real_of_int m < 2 ^ 53" using 3(2) by (metis of_int_less_iff of_int_numeral of_int_power)
    then have lt: "roundPos y < 2 powr (real_of_int e + 1)"
      using u by (simp add: r binade_ulp)
    have ge: "- 1022 < e \<longrightarrow> 2 powr (real_of_int e) \<le> roundPos y"
    proof
      assume "- 1022 < e"
      then have "2 ^ 52 \<le> m" using mantissa_ge [OF y] by (simp add: m_def e_def)
      then have "(2 ^ 52 :: real) \<le> real_of_int m"
        by (metis of_int_le_iff of_int_numeral of_int_power)
      then have "2 ^ 52 * u \<le> real_of_int m * u" using u by (intro mult_right_mono) simp_all
      then show "2 powr (real_of_int e) \<le> roundPos y"
        by (simp add: r binade_ulp0 [of e] u)
    qed
    have "exponent (roundPos y) = e" using pos lt ge e by (rule exponent_eqI)
    then have "roundPos (roundPos y) = of_int (roundTiesToEven (roundPos y / u)) * u"
      by (simp add: roundPos_def ulp_def u)
    also have "roundPos y / u = of_int m" using u by (simp add: r)
    finally have "roundPos (roundPos y) = roundPos y" by (simp only: rne_int r)
    then show ?thesis using pos by (simp add: toDouble_def)
  qed
qed

lemma toDouble_idem: "toDouble (toDouble y) = toDouble y"
proof -
  consider "y = 0" | "0 < y" | "y < 0" by linarith
  then show ?thesis
  proof cases
    case 1
    then show ?thesis by (simp add: toDouble_def)
  next
    case 2
    then show ?thesis using roundPos_idem [of y] by (simp add: toDouble_def)
  next
    case 3
    then have p: "0 < - y" by simp
    have nn: "0 \<le> roundPos (- y)" by (rule roundPos_nonneg [OF p])
    have "toDouble (- roundPos (- y)) = - roundPos (- y)"
    proof (cases "roundPos (- y) = 0")
      case True
      then show ?thesis by (simp add: toDouble_def)
    next
      case False
      with nn have "0 < roundPos (- y)" by simp
      moreover from roundPos_idem [OF p] this have "roundPos (roundPos (- y)) = roundPos (- y)"
        by (simp add: toDouble_def)
      ultimately show ?thesis by (simp add: toDouble_def)
    qed
    with 3 show ?thesis by (simp add: toDouble_def)
  qed
qed

lemma toDouble_nonneg: "0 \<le> y \<Longrightarrow> 0 \<le> toDouble y"
  using toDouble_mono [of 0 y] by (simp add: toDouble_def)

lemma isDouble_toDouble: "isDouble (toDouble y)"
  by (simp add: isDouble_def toDouble_idem)

lemma add_not_below: "isDouble x \<Longrightarrow> 0 \<le> d \<Longrightarrow> x \<le> toDouble (x + d)"
  using toDouble_mono [of x "x + d"] by (simp add: isDouble_def)

section \<open>Auxiliary facts\<close>

subsection \<open>Schedules\<close>

lemma after_cursor_mono: "after_cursor c' xs \<Longrightarrow> c \<le> c' \<Longrightarrow> after_cursor c xs"
  by (cases xs) auto

lemma after_cursor_append:
  "after_cursor c xs \<Longrightarrow> after_cursor c' ys \<Longrightarrow> cursor_after c xs \<le> c' \<Longrightarrow>
   after_cursor c (xs @ ys)"
  by (induction xs arbitrary: c) (auto intro: after_cursor_mono)

lemma cursor_after_append: "cursor_after c (xs @ ys) = cursor_after (cursor_after c xs) ys"
  by (induction xs arbitrary: c) auto

lemma cursor_after_ge: "after_cursor c xs \<Longrightarrow> c \<le> cursor_after c xs"
proof (induction xs arbitrary: c)
  case Nil
  then show ?case by simp
next
  case (Cons x xs)
  then have "c \<le> seg_start x" and "isDouble (seg_start x)" and "0 \<le> seg_duration x"
    and rest: "after_cursor (toDouble (seg_start x + seg_duration x)) xs" by simp_all
  then have "c \<le> toDouble (seg_start x + seg_duration x)"
    using add_not_below [of "seg_start x" "seg_duration x"] by simp
  also have "\<dots> \<le> cursor_after (toDouble (seg_start x + seg_duration x)) xs"
    by (rule Cons.IH [OF rest])
  finally show ?case by simp
qed

lemma after_cursor_chained: "after_cursor c xs \<Longrightarrow> cursor_chained xs"
  by (induction xs arbitrary: c rule: cursor_chained.induct) auto

lemma after_cursor_lower: "after_cursor c xs \<Longrightarrow> x \<in> set xs \<Longrightarrow> c \<le> seg_start x"
proof (induction xs arbitrary: c)
  case Nil
  then show ?case by simp
next
  case (Cons y ys)
  show ?case
  proof (cases "x = y")
    case True
    with Cons.prems show ?thesis by simp
  next
    case False
    with Cons.prems have "x \<in> set ys" by simp
    with Cons have "toDouble (seg_start y + seg_duration y) \<le> seg_start x" by simp
    moreover have "seg_start y \<le> toDouble (seg_start y + seg_duration y)"
      using Cons.prems(1) add_not_below [of "seg_start y" "seg_duration y"] by simp
    ultimately show ?thesis using Cons.prems(1) by simp
  qed
qed

lemma after_cursor_sorted: "after_cursor c xs \<Longrightarrow> sorted (map seg_start xs)"
proof (induction xs arbitrary: c)
  case Nil
  then show ?case by simp
next
  case (Cons y ys)
  then have rest: "after_cursor (toDouble (seg_start y + seg_duration y)) ys" by simp
  have "seg_start y \<le> toDouble (seg_start y + seg_duration y)"
    using Cons.prems add_not_below [of "seg_start y" "seg_duration y"] by simp
  then have "\<forall>x \<in> set ys. seg_start y \<le> seg_start x"
    using after_cursor_lower [OF rest] by fastforce
  with Cons.IH [OF rest] show ?case by simp
qed

lemma duration_nonneg: "0 \<le> duration b"
  unfolding duration_def by (rule toDouble_nonneg) simp

subsection \<open>What each part of the handler leaves alone\<close>

lemma forFunctionCalls_playback:
  "started (fst (forFunctionCalls fcs s)) = started s \<and>
   nextStartTimeRef (fst (forFunctionCalls fcs s)) = nextStartTimeRef s \<and>
   isSpeaking (fst (forFunctionCalls fcs s)) = isSpeaking s \<and>
   scheduledSourcesRef (fst (forFunctionCalls fcs s)) = scheduledSourcesRef s \<and>
   outputContextRef (fst (forFunctionCalls fcs s)) = outputContextRef s"
  by (induction fcs arbitrary: s)
     (auto simp: sendToolResponse_def onModeChange_def split: option.splits)

lemma handleToolCalls_playback:
  "started (fst (handleToolCalls m s)) = started s \<and>
   nextStartTimeRef (fst (handleToolCalls m s)) = nextStartTimeRef s \<and>
   isSpeaking (fst (handleToolCalls m s)) = isSpeaking s \<and>
   scheduledSourcesRef (fst (handleToolCalls m s)) = scheduledSourcesRef s \<and>
   outputContextRef (fst (handleToolCalls m s)) = outputContextRef s"
  by (auto simp: handleToolCalls_def forFunctionCalls_playback split: option.splits)

lemma handleTranscriptions_playback:
  "started (handleTranscriptions e sc s) = started s \<and>
   nextStartTimeRef (handleTranscriptions e sc s) = nextStartTimeRef s \<and>
   isSpeaking (handleTranscriptions e sc s) = isSpeaking s \<and>
   scheduledSourcesRef (handleTranscriptions e sc s) = scheduledSourcesRef s \<and>
   outputContextRef (handleTranscriptions e sc s) = outputContextRef s"
  by (simp add: handleTranscriptions_def Let_def)

subsection \<open>The handler on single events\<close>

lemma onmessage_delta:
  "t \<noteq> [] \<Longrightarrow>
   onmessage dec e (deltaMessage r t) s =
     (s\<lparr>messages := mergeFragment (dateNow e) r t (messages s)\<rparr>, None)"
  by (cases r)
     (auto simp: onmessage_def handleToolCalls_def handleTranscriptions_def
        handleAudioOutput_def transcriptionUpdater_def deltaMessage_def emptyContent_def)

lemma onmessage_turnComplete:
  "onmessage dec e turnCompleteMessage s =
     (s\<lparr>messages := turnCompleteUpdater (messages s)\<rparr>, None)"
  by (auto simp: onmessage_def handleToolCalls_def handleTranscriptions_def
        handleAudioOutput_def transcriptionUpdater_def turnCompleteMessage_def emptyContent_def)

lemma onmessage_interrupted:
  "onmessage dec e interruptedMessage s =
     (stopPlayback e (s\<lparr>messages := interruptedUpdater (messages s)\<rparr>), None)"
  by (simp add: onmessage_def handleToolCalls_def handleTranscriptions_def
      handleAudioOutput_def interruptedMessage_def emptyContent_def)

lemma onmessage_audio_failed:
  assumes "b64 \<noteq> []" and "outputContextRef s \<noteq> None" and "dec b64 = Inl err"
  shows "onmessage dec e (audioMessage b64) s =
     (s\<lparr>isSpeaking := True,
        nextStartTimeRef := max (nextStartTimeRef s) (currentTime e),
        console := console s @ [''Audio decoding error'']\<rparr>, None)"
  using assms
  by (auto simp: onmessage_def handleToolCalls_def audioMessage_def emptyContent_def
      handleTranscriptions_def handleAudioOutput_def Let_def max_def)

lemma onmessage_audio_decoded:
  assumes "b64 \<noteq> []" and "outputContextRef s \<noteq> None" and "dec b64 = Inr buf"
  shows "onmessage dec e (audioMessage b64) s =
     (s\<lparr>isSpeaking := True,
       started := started s @
         [\<lparr>seg_source = nextSourceId s,
           seg_start = max (nextStartTimeRef s) (currentTime e),
           seg_duration = duration buf\<rparr>],
       nextStartTimeRef := toDouble (max (nextStartTimeRef s) (currentTime e) + duration buf),
       scheduledSourcesRef := scheduledSourcesRef s @ [\<lparr>sid = nextSourceId s, buffer = buf\<rparr>],
       nextSourceId := Suc (nextSourceId s)\<rparr>, None)"
  using assms
  by (auto simp: onmessage_def handleToolCalls_def audioMessage_def emptyContent_def
      handleTranscriptions_def handleAudioOutput_def Let_def max_def)


subsection \<open>Teardown in one equation\<close>

lemma closeSession_eq:
  "(case p of None \<Rightarrow> s | Some q \<Rightarrow> closeSession q s) =
     s\<lparr>console := console s @ sessionCloseLog p, released := released s @ sessionClosed p\<rparr>"
proof (cases p)
  case None
  then show ?thesis by simp
next
  case (Some q)
  then show ?thesis
  proof (cases q)
    case (Resolves c)
    with Some show ?thesis
      by (cases c; cases "the c") auto
  qed auto
qed

lemma releaseRef_eq: "releaseRef r s = s\<lparr>released := released s @ refHandle r\<rparr>"
  by (cases r) (simp_all add: releaseRef_def)

lemma disconnect_eq:
  "disconnect e s =
     (s\<lparr>processorRef := None, inputSourceRef := None, streamRef := None,
        inputContextRef := None, outputContextRef := None, sessionRef := None,
        halted := halted s @ filter (\<lambda>i. \<not> stopThrows e i) (map sid (scheduledSourcesRef s)),
        scheduledSourcesRef := [], nextStartTimeRef := 0, isSpeaking := False,
        console := console s @ sessionCloseLog (sessionRef s),
        released := released s @ refHandle (processorRef s) @ refHandle (inputSourceRef s) @
          refHandle (streamRef s) @ refHandle (inputContextRef s) @
          sessionClosed (sessionRef s) @ refHandle (outputContextRef s),
        isConnected := False, currentMode := IDLE, modeChanges := modeChanges s @ [IDLE],
        volume := 0\<rparr>, None)"
  by (simp add: disconnect_def stopAudioProcessing_def stopPlayback_def closeSession_eq
      releaseRef_eq onModeChange_def Let_def)

subsection \<open>The sample states and payloads, evaluated\<close>

lemma connectedState_eq:
  "connectedState =
     \<lparr>isConnected = True, isSpeaking = False, volume = 0, error = None, messages = [],
      inputContextRef = Some (AudioContext 16000), outputContextRef = Some (AudioContext 24000),
      sessionRef = Some (Resolves (Some Closes)),
      inputSourceRef = Some MediaStreamAudioSourceNode, processorRef = Some ScriptProcessorNode,
      streamRef = Some MediaStream,
      nextStartTimeRef = 0, scheduledSourcesRef = [], currentMode = CONVERSATION,
      modeChanges = [CONVERSATION], sent = [], console = [''Connection opened''],
      started = [], halted = [],
      acquired = [AudioContext 16000, AudioContext 24000, MediaStream, LiveSession,
                  MediaStreamAudioSourceNode, ScriptProcessorNode],
      released = [], nextSourceId = 0\<rparr>"
  by (simp add: connectedState_def onopen_def connect_def readApiKey_def sampleEnv_def
      initialState_def onModeChange_def Let_def)

lemma decode_odd: "decodeAudioData 24000 ''AAAA'' = Inl (DecodeError ''byte length is not a multiple of 2'')"
  by (simp add: decodeAudioData_def base64ByteLength_def)

lemma decode_even: "decodeAudioData 24000 ''AAAAAAAA'' = Inr \<lparr>frames = 3, rate = 24000\<rparr>"
  by (simp add: decodeAudioData_def base64ByteLength_def)


subsection \<open>The values of the instances\<close>

lemma isDouble_0: "isDouble 0"
  by (simp add: isDouble_def toDouble_def)

lemma isDouble_4: "isDouble 4"
proof -
  have "roundPos 4 =
    of_int (roundTiesToEven (4 / 2 powr (real_of_int 2 - 52))) * 2 powr (real_of_int 2 - 52)"
    by (rule roundPos_eval) (simp_all add: powr_neg_numeral)
  also have "\<dots> = 4"
    by (simp add: roundTiesToEven_def Let_def powr_neg_numeral)
  finally show ?thesis by (simp add: isDouble_def toDouble_def)
qed

lemma isDouble_8: "isDouble 8"
proof -
  have "roundPos 8 =
    of_int (roundTiesToEven (8 / 2 powr (real_of_int 3 - 52))) * 2 powr (real_of_int 3 - 52)"
    by (rule roundPos_eval) (simp_all add: powr_neg_numeral)
  also have "\<dots> = 8"
    by (simp add: roundTiesToEven_def Let_def powr_neg_numeral)
  finally show ?thesis by (simp add: isDouble_def toDouble_def)
qed

lemma duration_sample: "duration \<lparr>frames = 3, rate = 24000\<rparr> = 4611686018427388 / 2 ^ 65"
proof -
  have "roundPos (3 / 24000) =
    of_int (roundTiesToEven ((3 / 24000) / 2 powr (real_of_int (- 13) - 52))) *
      2 powr (real_of_int (- 13) - 52)"
    by (rule roundPos_eval) (simp_all add: powr_neg_numeral)
  also have "\<dots> = 4611686018427388 / 2 ^ 65"
    by (simp add: roundTiesToEven_def Let_def powr_neg_numeral)
  finally show ?thesis by (simp add: duration_def toDouble_def)
qed

lemma cursor_sample:
  "toDouble (4 + 4611686018427388 / 2 ^ 65) = 4503740364858851 / 2 ^ 50"
proof -
  have "roundPos (4 + 4611686018427388 / 2 ^ 65) =
    of_int (roundTiesToEven ((4 + 4611686018427388 / 2 ^ 65) / 2 powr (real_of_int 2 - 52))) *
      2 powr (real_of_int 2 - 52)"
    by (rule roundPos_eval) (simp_all add: powr_neg_numeral)
  also have "\<dots> = 4503740364858851 / 2 ^ 50"
    by (simp add: roundTiesToEven_def Let_def powr_neg_numeral)
  finally show ?thesis by (simp add: toDouble_def)
qed

lemma cursor_sample_sum:
  "toDouble (36894641068923710079 / 9223372036854775808) =
     4503740364858851 / 1125899906842624"
  using cursor_sample by simp

section \<open>Playback scheduling\<close>

lemma handleAudioOutput_segs:
  assumes "isDouble (nextStartTimeRef s)" and "isDouble (currentTime e)"
  shows "\<exists>segs. started (handleAudioOutput dec e a s) = started s @ segs \<and>
     after_cursor (nextStartTimeRef s) segs \<and>
     cursor_after (nextStartTimeRef s) segs \<le> nextStartTimeRef (handleAudioOutput dec e a s) \<and>
     isDouble (nextStartTimeRef (handleAudioOutput dec e a s))"
  using assms
  by (auto simp: handleAudioOutput_def Let_def duration_nonneg isDouble_toDouble
      split: option.splits sum.splits)

lemma onmessage_segs:
  assumes "\<not> isInterrupted m" and "isDouble (nextStartTimeRef s)" and "isDouble (currentTime e)"
  shows "\<exists>segs. started (fst (onmessage dec e m s)) = started s @ segs \<and>
     after_cursor (nextStartTimeRef s) segs \<and>
     cursor_after (nextStartTimeRef s) segs \<le> nextStartTimeRef (fst (onmessage dec e m s)) \<and>
     isDouble (nextStartTimeRef (fst (onmessage dec e m s)))"
proof (cases "handleToolCalls m s")
  case (Pair s1 r)
  have s1: "started s1 = started s" "nextStartTimeRef s1 = nextStartTimeRef s"
    using handleToolCalls_playback [of m s] Pair by simp_all
  show ?thesis
  proof (cases "r = None \<and> serverContent m \<noteq> None")
    case False
    then have "fst (onmessage dec e m s) = s1"
      using Pair by (auto simp: onmessage_def split: option.splits)
    with s1 assms(2) show ?thesis by (intro exI [of _ "[]"]) simp
  next
    case True
    then obtain sc where sc: "serverContent m = Some sc" and r: "r = None" by auto
    let ?s2 = "handleTranscriptions e sc s1"
    from assms(1) sc have "\<not> interrupted sc" by (simp add: isInterrupted_def)
    then have eq: "fst (onmessage dec e m s) = handleAudioOutput dec e (inlineData sc) ?s2"
      using Pair sc r by (simp add: onmessage_def Let_def)
    have s2: "started ?s2 = started s" "nextStartTimeRef ?s2 = nextStartTimeRef s"
      using handleTranscriptions_playback [of e sc s1] s1 by simp_all
    have "isDouble (nextStartTimeRef ?s2)" using assms(2) s2 by simp
    from handleAudioOutput_segs [OF this assms(3), of dec "inlineData sc"]
    show ?thesis unfolding eq s2 .
  qed
qed

lemma onmessages_segs:
  assumes "uninterrupted ems" and "isDouble (nextStartTimeRef s)"
  shows "\<exists>segs. started (onmessages dec ems s) = started s @ segs \<and>
     after_cursor (nextStartTimeRef s) segs \<and>
     cursor_after (nextStartTimeRef s) segs \<le> nextStartTimeRef (onmessages dec ems s)"
  using assms
proof (induction ems arbitrary: s)
  case Nil
  show ?case by (intro exI [of _ "[]"]) simp
next
  case (Cons em ems)
  let ?s1 = "fst (onmessage dec (fst em) (snd em) s)"
  from Cons.prems(1) have ni: "\<not> isInterrupted (snd em)"
    and clock: "isDouble (currentTime (fst em))"
    and rest: "uninterrupted ems" by (simp_all add: uninterrupted_def)
  from onmessage_segs [OF ni Cons.prems(2) clock, of dec] obtain xs where
    xs: "started ?s1 = started s @ xs" "after_cursor (nextStartTimeRef s) xs"
        "cursor_after (nextStartTimeRef s) xs \<le> nextStartTimeRef ?s1"
        "isDouble (nextStartTimeRef ?s1)" by blast
  from Cons.IH [OF rest xs(4)] obtain ys where
    ys: "started (onmessages dec ems ?s1) = started ?s1 @ ys"
        "after_cursor (nextStartTimeRef ?s1) ys"
        "cursor_after (nextStartTimeRef ?s1) ys \<le> nextStartTimeRef (onmessages dec ems ?s1)"
    by blast
  have "after_cursor (nextStartTimeRef s) (xs @ ys)"
    using xs ys by (intro after_cursor_append) auto
  moreover have "cursor_after (nextStartTimeRef s) (xs @ ys)
      \<le> nextStartTimeRef (onmessages dec ems ?s1)"
  proof (cases ys)
    case Nil
    with xs ys cursor_after_ge [of "nextStartTimeRef ?s1" ys] show ?thesis by simp
  next
    case (Cons y ys')
    then have "cursor_after (nextStartTimeRef s) (xs @ ys) =
        cursor_after (nextStartTimeRef ?s1) ys"
      by (simp add: cursor_after_append)
    with ys show ?thesis by simp
  qed
  ultimately show ?case
    using xs ys by (intro exI [of _ "xs @ ys"]) simp
qed

text \<open>
  Claim C1, as the code has it. A message that carries a payload which decodes schedules
  one segment: it starts at the cursor, taken after the cursor has been moved up to the
  clock of the output context when it was behind, and the cursor then becomes the double
  nearest to that start plus the segment's duration. Over any run of messages none of
  which is interrupted (so playback is never stopped), from any state whose cursor is a
  double and with clock readings that are doubles, the segments scheduled in the run are
  appended in order to those scheduled before, each starts no earlier than the rounded sum
  of the start and the duration of the one before, and the start times are non-decreasing.
\<close>

theorem playback_monotonic:
  "(b64 \<noteq> [] \<longrightarrow> outputContextRef s \<noteq> None \<longrightarrow> dec b64 = Inr buf \<longrightarrow>
      started (fst (onmessage dec e (audioMessage b64) s)) =
        started s @
          [\<lparr>seg_source = nextSourceId s,
            seg_start = max (nextStartTimeRef s) (currentTime e),
            seg_duration = duration buf\<rparr>] \<and>
      nextStartTimeRef (fst (onmessage dec e (audioMessage b64) s)) =
        toDouble (max (nextStartTimeRef s) (currentTime e) + duration buf)) \<and>
   (isDouble (nextStartTimeRef s) \<longrightarrow> uninterrupted ems \<longrightarrow>
      take (length (started s)) (started (onmessages dec ems s)) = started s \<and>
      cursor_chained (drop (length (started s)) (started (onmessages dec ems s))) \<and>
      sorted (map seg_start (drop (length (started s)) (started (onmessages dec ems s)))))"
proof (intro conjI impI)
  assume a1: "b64 \<noteq> []" and a2: "outputContextRef s \<noteq> None" and a3: "dec b64 = Inr buf"
  note a = onmessage_audio_decoded [where dec = dec and ?b64.0 = b64 and e = e, OF a1 a2 a3]
  show "started (fst (onmessage dec e (audioMessage b64) s)) =
        started s @
          [\<lparr>seg_source = nextSourceId s,
            seg_start = max (nextStartTimeRef s) (currentTime e),
            seg_duration = duration buf\<rparr>]"
    by (simp add: a)
  show "nextStartTimeRef (fst (onmessage dec e (audioMessage b64) s)) =
        toDouble (max (nextStartTimeRef s) (currentTime e) + duration buf)"
    by (simp add: a)
next
  assume "isDouble (nextStartTimeRef s)" and "uninterrupted ems"
  from onmessages_segs [OF this(2) this(1), of dec] obtain segs where
    segs: "started (onmessages dec ems s) = started s @ segs"
      "after_cursor (nextStartTimeRef s) segs" by blast
  show "take (length (started s)) (started (onmessages dec ems s)) = started s"
    using segs by simp
  show "cursor_chained (drop (length (started s)) (started (onmessages dec ems s)))"
    using segs after_cursor_chained by simp
  show "sorted (map seg_start (drop (length (started s)) (started (onmessages dec ems s))))"
    using segs after_cursor_sorted by simp
qed

lemma two_chunks:
  "started (onmessages (decodeAudioData 24000)
      [(sampleEnv 4, audioMessage ''AAAAAAAA''), (sampleEnv 4, audioMessage ''AAAAAAAA'')]
      connectedState) =
   [\<lparr>seg_source = 0, seg_start = 4, seg_duration = 4611686018427388 / 2 ^ 65\<rparr>,
    \<lparr>seg_source = 1, seg_start = 4503740364858851 / 2 ^ 50,
      seg_duration = 4611686018427388 / 2 ^ 65\<rparr>]"
proof -
  let ?dec = "decodeAudioData 24000"
  let ?buf = "\<lparr>frames = 3, rate = 24000\<rparr>"
  have ctx: "outputContextRef connectedState \<noteq> None" by (simp add: connectedState_eq)
  note one = onmessage_audio_decoded [where dec = ?dec and ?b64.0 = "''AAAAAAAA''"
      and e = "sampleEnv 4" and s = connectedState and buf = ?buf, OF _ ctx decode_even,
      simplified]
  let ?s1 = "fst (onmessage ?dec (sampleEnv 4) (audioMessage ''AAAAAAAA'') connectedState)"
  have s1: "nextStartTimeRef ?s1 = 4503740364858851 / 2 ^ 50" "started ?s1 =
      [\<lparr>seg_source = 0, seg_start = 4, seg_duration = 4611686018427388 / 2 ^ 65\<rparr>]"
    "nextSourceId ?s1 = 1" "outputContextRef ?s1 \<noteq> None"
    unfolding one
    by (simp_all add: connectedState_eq sampleEnv_def duration_sample cursor_sample_sum)
  note two = onmessage_audio_decoded [where dec = ?dec and ?b64.0 = "''AAAAAAAA''"
      and e = "sampleEnv 4" and s = ?s1 and buf = ?buf, OF _ s1(4) decode_even, simplified]
  have "started (fst (onmessage ?dec (sampleEnv 4) (audioMessage ''AAAAAAAA'') ?s1)) =
      [\<lparr>seg_source = 0, seg_start = 4, seg_duration = 4611686018427388 / 2 ^ 65\<rparr>,
       \<lparr>seg_source = 1, seg_start = 4503740364858851 / 2 ^ 50,
         seg_duration = 4611686018427388 / 2 ^ 65\<rparr>]"
    unfolding two using s1(1,2,3) by (simp add: sampleEnv_def duration_sample)
  then show ?thesis by simp
qed

theorem playback_monotonic_witness:
  "started (fst (onmessage (decodeAudioData 24000) (sampleEnv 4)
      (audioMessage ''AAAAAAAA'') connectedState)) =
     [\<lparr>seg_source = 0, seg_start = 4, seg_duration = 4611686018427388 / 2 ^ 65\<rparr>]
   \<and> nextStartTimeRef (fst (onmessage (decodeAudioData 24000) (sampleEnv 4)
      (audioMessage ''AAAAAAAA'') connectedState)) = 4503740364858851 / 2 ^ 50
   \<and> cursor_chained (started (onmessages (decodeAudioData 24000)
        [(sampleEnv 4, audioMessage ''AAAAAAAA''), (sampleEnv 4, audioMessage ''AAAAAAAA'')]
        connectedState))
   \<and> sorted (map seg_start (started (onmessages (decodeAudioData 24000)
        [(sampleEnv 4, audioMessage ''AAAAAAAA''), (sampleEnv 4, audioMessage ''AAAAAAAA'')]
        connectedState)))"
proof -
  let ?ems = "[(sampleEnv 4, audioMessage ''AAAAAAAA''),
               (sampleEnv 4, audioMessage ''AAAAAAAA'')]"
  have run: "uninterrupted ?ems"
    by (simp add: uninterrupted_def isInterrupted_def audioMessage_def emptyContent_def
        sampleEnv_def isDouble_4)
  have ctx: "outputContextRef connectedState \<noteq> None" "started connectedState = []"
    "nextStartTimeRef connectedState = 0" "nextSourceId connectedState = 0"
    by (simp_all add: connectedState_eq)
  have cursor: "isDouble (nextStartTimeRef connectedState)"
    by (simp add: ctx isDouble_0)
  note c = playback_monotonic [where ?b64.0 = "''AAAAAAAA''" and s = connectedState
      and dec = "decodeAudioData 24000" and buf = "\<lparr>frames = 3, rate = 24000\<rparr>"
      and e = "sampleEnv 4" and ems = ?ems]
  have step: "started (fst (onmessage (decodeAudioData 24000) (sampleEnv 4)
      (audioMessage ''AAAAAAAA'') connectedState)) =
     [\<lparr>seg_source = 0, seg_start = 4, seg_duration = 4611686018427388 / 2 ^ 65\<rparr>]"
    "nextStartTimeRef (fst (onmessage (decodeAudioData 24000) (sampleEnv 4)
      (audioMessage ''AAAAAAAA'') connectedState)) = 4503740364858851 / 2 ^ 50"
    using c [THEN conjunct1] ctx
    by (simp_all add: decode_even duration_sample cursor_sample_sum sampleEnv_def)
  have chained: "cursor_chained (started (onmessages (decodeAudioData 24000) ?ems connectedState))"
    "sorted (map seg_start (started (onmessages (decodeAudioData 24000) ?ems connectedState)))"
    using c [THEN conjunct2] cursor run ctx(2) by simp_all
  from step chained show ?thesis by (intro conjI)
qed

text \<open>
  The claim as stated, with the sum taken exactly, fails: two chunks of three frames at
  24 kHz received while the clock reads 4 seconds. The first starts at 4 and lasts
  \<open>4611686018427388 / 2 ^ 65\<close> seconds (the double nearest to 1/8000); the cursor becomes
  the double nearest to their sum, which lies below the sum, and the second chunk starts
  there.
\<close>

theorem playback_monotonic_counterexample:
  "started (onmessages (decodeAudioData 24000)
      [(sampleEnv 4, audioMessage ''AAAAAAAA''), (sampleEnv 4, audioMessage ''AAAAAAAA'')]
      connectedState) =
     [\<lparr>seg_source = 0, seg_start = 4, seg_duration = 4611686018427388 / 2 ^ 65\<rparr>,
      \<lparr>seg_source = 1, seg_start = 4503740364858851 / 2 ^ 50,
        seg_duration = 4611686018427388 / 2 ^ 65\<rparr>]
   \<and> \<not> back_to_back (started (onmessages (decodeAudioData 24000)
        [(sampleEnv 4, audioMessage ''AAAAAAAA''), (sampleEnv 4, audioMessage ''AAAAAAAA'')]
        connectedState))"
  unfolding two_chunks by simp

section \<open>Transcript\<close>

lemma mergeFragment_entry:
  "map entry_of (mergeFragment now r t prev) = spec_step (map entry_of prev) (Delta r t)"
  by (cases prev rule: rev_cases)
     (auto simp: mergeFragment_def lastMsg_def entry_of_def newEntry_def)

lemma turnComplete_entry:
  "map entry_of (turnCompleteUpdater prev) = spec_step (map entry_of prev) TurnComplete"
  by (cases prev rule: rev_cases)
     (auto simp: turnCompleteUpdater_def lastMsg_def entry_of_def)

lemma onmessage_event_entries:
  "nonempty_event ev \<Longrightarrow>
   map entry_of (messages (fst (onmessage dec e (eventMessage ev) s))) =
     spec_step (map entry_of (messages s)) ev"
  by (cases ev)
     (simp_all add: onmessage_delta onmessage_turnComplete mergeFragment_entry
        turnComplete_entry del: spec_step.simps)

text \<open>
  Claim C3. For every sequence of transcript deltas (fragments with text) and turn-complete
  signals, delivered one per message from any state, the log of the hook, read as entries
  (role, text, final), is the log that the rules of the specification give: a delta of the
  role of the last entry joins that entry's text when the entry is open; a delta of the
  other role, or after a final entry, or on an empty log, opens a new open entry;
  turn-complete makes the last entry final if it is open. The scenario of the
  specification is the instance below.
\<close>

theorem transcript_merge:
  assumes "list_all (\<lambda>ev. nonempty_event (snd ev)) evs"
  shows "map entry_of
           (messages (onmessages dec (map (\<lambda>ev. (fst ev, eventMessage (snd ev))) evs) s)) =
         foldl spec_step (map entry_of (messages s)) (map snd evs)"
  using assms
proof (induction evs arbitrary: s)
  case Nil
  then show ?case by simp
next
  case (Cons ev evs)
  then show ?case
    by (simp add: onmessage_event_entries del: spec_step.simps eventMessage.simps)
qed

theorem transcript_merge_witness:
  "map entry_of
     (messages (onmessages (decodeAudioData 24000)
        (map (\<lambda>ev. (fst ev, eventMessage (snd ev)))
           [(sampleEnv 0, Delta User ''Hi''), (sampleEnv 0, Delta User '' there''),
            (sampleEnv 0, TurnComplete), (sampleEnv 0, Delta Model ''Hello!'')])
        initialState)) =
   [(User, ''Hi there'', True), (Model, ''Hello!'', False)]"
  using transcript_merge [of
      "[(sampleEnv 0, Delta User ''Hi''), (sampleEnv 0, Delta User '' there''),
        (sampleEnv 0, TurnComplete), (sampleEnv 0, Delta Model ''Hello!'')]"
      "decodeAudioData 24000" initialState]
  by (simp add: initialState_def)

text \<open>
  Claim C9. When one message carries text on both the input side and the output side, the
  updater merges the input text as a user fragment and returns; the output text is
  dropped: the message acts exactly as the same message without its output transcription.
\<close>

theorem fragment_precedence:
  assumes "serverContent m = Some sc"
      and "inputTranscription sc = Some i" and "i \<noteq> []"
      and "outputTranscription sc = Some out" and "out \<noteq> []"
  shows "transcriptionUpdater now (inputTranscription sc) (outputTranscription sc) prev =
           mergeFragment now User i prev
         \<and> onmessage dec e m s =
           onmessage dec e (m\<lparr>serverContent := Some (sc\<lparr>outputTranscription := None\<rparr>)\<rparr>) s"
  using assms
  by (auto simp: transcriptionUpdater_def onmessage_def handleToolCalls_def
      handleTranscriptions_def split: prod.splits option.splits)

theorem fragment_precedence_witness:
  "map entry_of (messages (fst (onmessage (decodeAudioData 24000) (sampleEnv 0)
      \<lparr>toolCall = None,
       serverContent = Some (emptyContent\<lparr>inputTranscription := Some ''Hi'',
                                          outputTranscription := Some ''Hello''\<rparr>)\<rparr>
      initialState))) = [(User, ''Hi'', False)]"
proof -
  let ?sc = "emptyContent\<lparr>inputTranscription := Some ''Hi'', outputTranscription := Some ''Hello''\<rparr>"
  let ?m = "\<lparr>toolCall = None, serverContent = Some ?sc\<rparr>"
  have "onmessage (decodeAudioData 24000) (sampleEnv 0) ?m initialState =
      onmessage (decodeAudioData 24000) (sampleEnv 0)
        (?m\<lparr>serverContent := Some (?sc\<lparr>outputTranscription := None\<rparr>)\<rparr>) initialState"
    using fragment_precedence [of ?m ?sc "''Hi''" "''Hello''"]
    by (simp add: emptyContent_def)
  also have "?m\<lparr>serverContent := Some (?sc\<lparr>outputTranscription := None\<rparr>)\<rparr> =
      deltaMessage User ''Hi''"
    by (simp add: deltaMessage_def emptyContent_def)
  finally show ?thesis
    by (simp add: onmessage_delta mergeFragment_def lastMsg_def initialState_def
        entry_of_def newEntry_def)
qed

section \<open>Interruption\<close>

text \<open>
  Claim C2. When the interrupted signal arrives while the last entry of the log is an open
  model entry, that entry gets \<open>'' ...''\<close> appended and becomes final. Playback is then
  stopped: every scheduled source is asked to stop, a source whose \<^verbatim>\<open>stop()\<close> throws is
  passed over without a trace (nothing is logged, nothing is raised), the set of scheduled
  sources is emptied, the cursor returns to zero and speaking ends. The handler's promise
  is not rejected, whatever the number of sources in flight; nothing else changes.
\<close>

theorem interruption:
  assumes "messages s = prev @ [l]" and "role l = Model" and "\<not> isFinal l"
  shows "onmessage dec e interruptedMessage s =
     (s\<lparr>messages := prev @ [l\<lparr>isFinal := True, msg_text := msg_text l @ '' ...''\<rparr>],
        halted := halted s @ filter (\<lambda>i. \<not> stopThrows e i) (map sid (scheduledSourcesRef s)),
        scheduledSourcesRef := [], nextStartTimeRef := 0, isSpeaking := False\<rparr>, None)"
  using assms
  by (simp add: onmessage_interrupted stopPlayback_def interruptedUpdater_def lastMsg_def)

theorem interruption_witness:
  "onmessage (decodeAudioData 24000) (sampleEnv 0) interruptedMessage
     (connectedState\<lparr>messages :=
        [\<lparr>msg_id = ''1000-model'', role = Model, msg_text = ''Let me expl'',
          timestamp = 1000, isFinal = False\<rparr>]\<rparr>) =
   (connectedState\<lparr>messages :=
        [\<lparr>msg_id = ''1000-model'', role = Model, msg_text = ''Let me expl ...'',
          timestamp = 1000, isFinal = True\<rparr>]\<rparr>, None)
   \<and> scheduledSourcesRef connectedState = []
   \<and> onmessage (decodeAudioData 24000) ((sampleEnv 0)\<lparr>stopThrows := (\<lambda>i. i = 0)\<rparr>)
       interruptedMessage
       (connectedState\<lparr>messages :=
          [\<lparr>msg_id = ''1000-model'', role = Model, msg_text = ''Let me expl'',
            timestamp = 1000, isFinal = False\<rparr>],
          isSpeaking := True, nextStartTimeRef := 5,
          scheduledSourcesRef :=
            [\<lparr>sid = 0, buffer = \<lparr>frames = 3, rate = 24000\<rparr>\<rparr>,
             \<lparr>sid = 1, buffer = \<lparr>frames = 3, rate = 24000\<rparr>\<rparr>]\<rparr>) =
   (connectedState\<lparr>messages :=
        [\<lparr>msg_id = ''1000-model'', role = Model, msg_text = ''Let me expl ...'',
          timestamp = 1000, isFinal = True\<rparr>],
        halted := [1]\<rparr>, None)"
proof -
  let ?l = "\<lparr>msg_id = ''1000-model'', role = Model, msg_text = ''Let me expl'',
          timestamp = 1000, isFinal = False\<rparr>"
  let ?s1 = "connectedState\<lparr>messages := [?l]\<rparr>"
  let ?s2 = "connectedState\<lparr>messages := [?l], isSpeaking := True, nextStartTimeRef := 5,
          scheduledSourcesRef :=
            [\<lparr>sid = 0, buffer = \<lparr>frames = 3, rate = 24000\<rparr>\<rparr>,
             \<lparr>sid = 1, buffer = \<lparr>frames = 3, rate = 24000\<rparr>\<rparr>]\<rparr>"
  have one: "onmessage (decodeAudioData 24000) (sampleEnv 0) interruptedMessage ?s1 =
      (connectedState\<lparr>messages := [?l\<lparr>isFinal := True, msg_text := ''Let me expl ...''\<rparr>]\<rparr>, None)"
    using interruption [of ?s1 "[]" ?l "decodeAudioData 24000" "sampleEnv 0"]
    by (simp add: connectedState_eq sampleEnv_def)
  have two: "onmessage (decodeAudioData 24000) ((sampleEnv 0)\<lparr>stopThrows := (\<lambda>i. i = 0)\<rparr>)
      interruptedMessage ?s2 =
      (connectedState\<lparr>messages := [?l\<lparr>isFinal := True, msg_text := ''Let me expl ...''\<rparr>],
         halted := [1]\<rparr>, None)"
    using interruption [of ?s2 "[]" ?l "decodeAudioData 24000"
        "(sampleEnv 0)\<lparr>stopThrows := (\<lambda>i. i = 0)\<rparr>"]
    by (simp add: connectedState_eq sampleEnv_def)
  show ?thesis using one two by (simp add: connectedState_eq)
qed

section \<open>Tool calls\<close>

lemma forFunctionCalls_eq:
  "list_all (\<lambda>fc. fc_name fc = ''setTeachingMode'' \<longrightarrow> fc_args fc \<noteq> None) fcs \<Longrightarrow>
   forFunctionCalls fcs s =
     (s\<lparr>currentMode := last (currentMode s # recognizedModes fcs),
        modeChanges := modeChanges s @ recognizedModes fcs,
        sent := sent s @ map functionResponse (modeUpdateCalls fcs)\<rparr>, None)"
proof (induction fcs arbitrary: s)
  case Nil
  then show ?case by (simp add: recognizedModes_def modeUpdateCalls_def)
next
  case (Cons fc fcs)
  show ?case
  proof (cases "fc_name fc = ''setTeachingMode''")
    case False
    with Cons show ?thesis
      by (simp add: recognizedModes_def modeUpdateCalls_def)
  next
    case True
    with Cons.prems obtain v where v: "fc_args fc = Some v" by auto
    show ?thesis
    proof (cases "includes_TeachingMode v")
      case None
      with True v Cons show ?thesis
        by (simp add: recognizedModes_def modeUpdateCalls_def requestedMode_def
            sendToolResponse_def)
    next
      case (Some m)
      with True v Cons show ?thesis
        by (simp add: recognizedModes_def modeUpdateCalls_def requestedMode_def
            sendToolResponse_def onModeChange_def)
    qed
  qed
qed

lemma forFunctionCalls_throw:
  assumes "list_all (\<lambda>fc. fc_name fc = ''setTeachingMode'' \<longrightarrow> fc_args fc \<noteq> None) pre"
    and "fc_name fc = ''setTeachingMode''" and "fc_args fc = None"
  shows "forFunctionCalls (pre @ fc # post) s =
     (s\<lparr>currentMode := last (currentMode s # recognizedModes pre),
        modeChanges := modeChanges s @ recognizedModes pre,
        sent := sent s @ map functionResponse (modeUpdateCalls pre)\<rparr>,
      Some (TypeError ''Cannot read properties of undefined''))"
  using assms(1)
proof (induction pre arbitrary: s)
  case Nil
  with assms(2,3) show ?case by (simp add: recognizedModes_def modeUpdateCalls_def)
next
  case (Cons c cs)
  show ?case
  proof (cases "fc_name c = ''setTeachingMode''")
    case False
    with Cons show ?thesis
      by (simp add: recognizedModes_def modeUpdateCalls_def)
  next
    case True
    with Cons.prems obtain v where v: "fc_args c = Some v" by auto
    show ?thesis
    proof (cases "includes_TeachingMode v")
      case None
      with True v Cons show ?thesis
        by (simp add: recognizedModes_def modeUpdateCalls_def requestedMode_def
            sendToolResponse_def)
    next
      case (Some m)
      with True v Cons show ?thesis
        by (simp add: recognizedModes_def modeUpdateCalls_def requestedMode_def
            sendToolResponse_def onModeChange_def)
    qed
  qed
qed

text \<open>
  The loop in full. For a tool-call message whose calls of the mode-update tool each carry
  their argument object: every such call whose requested mode is a value of
  \<open>TeachingMode\<close> sets the mode and notifies the observer, in order; a call whose requested
  mode is anything else leaves the mode as it is; and each such call, recognized or not,
  is answered by exactly one tool response with its id and name, in order. Calls of other
  tools change nothing and get no response. Nothing else changes and the handler's promise
  is not rejected. A call of the mode-update tool that carries no argument object makes
  the handler throw when it reads the mode: the calls before it are handled as above, and
  neither that call nor any call after it is answered.
\<close>

lemma mode_update_calls:
  "(list_all (\<lambda>fc. fc_name fc = ''setTeachingMode'' \<longrightarrow> fc_args fc \<noteq> None) fcs \<longrightarrow>
      onmessage dec e (toolCallMessage fcs) s =
        (s\<lparr>currentMode := last (currentMode s # recognizedModes fcs),
           modeChanges := modeChanges s @ recognizedModes fcs,
           sent := sent s @ map functionResponse (modeUpdateCalls fcs)\<rparr>, None)) \<and>
   (list_all (\<lambda>fc. fc_name fc = ''setTeachingMode'' \<longrightarrow> fc_args fc \<noteq> None) pre \<longrightarrow>
    fc_name fc = ''setTeachingMode'' \<longrightarrow> fc_args fc = None \<longrightarrow>
      onmessage dec e (toolCallMessage (pre @ fc # post)) s =
        (s\<lparr>currentMode := last (currentMode s # recognizedModes pre),
           modeChanges := modeChanges s @ recognizedModes pre,
           sent := sent s @ map functionResponse (modeUpdateCalls pre)\<rparr>,
         Some (TypeError ''Cannot read properties of undefined'')))"
proof (intro conjI impI)
  assume "list_all (\<lambda>fc. fc_name fc = ''setTeachingMode'' \<longrightarrow> fc_args fc \<noteq> None) fcs"
  from forFunctionCalls_eq [OF this, of s]
  show "onmessage dec e (toolCallMessage fcs) s =
        (s\<lparr>currentMode := last (currentMode s # recognizedModes fcs),
           modeChanges := modeChanges s @ recognizedModes fcs,
           sent := sent s @ map functionResponse (modeUpdateCalls fcs)\<rparr>, None)"
    by (simp add: onmessage_def handleToolCalls_def toolCallMessage_def)
next
  assume "list_all (\<lambda>fc. fc_name fc = ''setTeachingMode'' \<longrightarrow> fc_args fc \<noteq> None) pre"
    and "fc_name fc = ''setTeachingMode''" and "fc_args fc = None"
  from forFunctionCalls_throw [OF this, of post s]
  show "onmessage dec e (toolCallMessage (pre @ fc # post)) s =
        (s\<lparr>currentMode := last (currentMode s # recognizedModes pre),
           modeChanges := modeChanges s @ recognizedModes pre,
           sent := sent s @ map functionResponse (modeUpdateCalls pre)\<rparr>,
         Some (TypeError ''Cannot read properties of undefined''))"
    by (simp add: onmessage_def handleToolCalls_def toolCallMessage_def)
qed

text \<open>
  Claim C4: every call naming the mode-update tool is acknowledged by exactly one tool
  response, whether or not its mode is recognized. The handler does so for the calls that
  carry their argument object, as shown above. It reads the mode from \<^verbatim>\<open>fc.args\<close> without
  testing that the object is there (the other optional fields of the message are read with
  \<^verbatim>\<open>?.\<close>), so on a message of two mode-update calls whose first call has no argument object
  it throws: no response is sent for either call, the state is unchanged, and the promise
  of the handler is rejected.
\<close>

theorem mode_update_unacknowledged:
  "length (modeUpdateCalls
      [\<lparr>fc_id = ''1'', fc_name = ''setTeachingMode'', fc_args = None\<rparr>,
       \<lparr>fc_id = ''2'', fc_name = ''setTeachingMode'',
        fc_args = Some (JString ''Correction Mode'')\<rparr>]) = 2
   \<and> onmessage (decodeAudioData 24000) (sampleEnv 0)
       (toolCallMessage
          [\<lparr>fc_id = ''1'', fc_name = ''setTeachingMode'', fc_args = None\<rparr>,
           \<lparr>fc_id = ''2'', fc_name = ''setTeachingMode'',
            fc_args = Some (JString ''Correction Mode'')\<rparr>])
       connectedState =
     (connectedState, Some (TypeError ''Cannot read properties of undefined''))
   \<and> sent connectedState = []"
  by (simp add: modeUpdateCalls_def onmessage_def handleToolCalls_def toolCallMessage_def
      connectedState_eq)

section \<open>Teardown\<close>

text \<open>
  Claim C5. \<open>disconnect\<close> never rejects. One call releases the capture nodes, the
  microphone stream and the capture context that are held, stops playback, closes the
  transport if one is held (a rejected promise or a throwing \<^verbatim>\<open>close\<close> is logged), releases
  the output context, and leaves every ref null, the connection state disconnected, the
  mode \<open>IDLE\<close> and the volume zero; a ref that is null is skipped. A second call changes
  nothing but notifies the mode observer of \<open>IDLE\<close> once more: the state after two calls is
  the state after one.
\<close>

theorem disconnect_idempotent:
  "disconnect e s =
     (s\<lparr>processorRef := None, inputSourceRef := None, streamRef := None,
        inputContextRef := None, outputContextRef := None, sessionRef := None,
        halted := halted s @ filter (\<lambda>i. \<not> stopThrows e i) (map sid (scheduledSourcesRef s)),
        scheduledSourcesRef := [], nextStartTimeRef := 0, isSpeaking := False,
        console := console s @ sessionCloseLog (sessionRef s),
        released := released s @ refHandle (processorRef s) @ refHandle (inputSourceRef s) @
          refHandle (streamRef s) @ refHandle (inputContextRef s) @
          sessionClosed (sessionRef s) @ refHandle (outputContextRef s),
        isConnected := False, currentMode := IDLE, modeChanges := modeChanges s @ [IDLE],
        volume := 0\<rparr>, None)
   \<and> disconnect e' (fst (disconnect e s)) =
     ((fst (disconnect e s))\<lparr>modeChanges := modeChanges s @ [IDLE, IDLE]\<rparr>, None)"
proof (rule conjI)
  show once: "disconnect e s =
     (s\<lparr>processorRef := None, inputSourceRef := None, streamRef := None,
        inputContextRef := None, outputContextRef := None, sessionRef := None,
        halted := halted s @ filter (\<lambda>i. \<not> stopThrows e i) (map sid (scheduledSourcesRef s)),
        scheduledSourcesRef := [], nextStartTimeRef := 0, isSpeaking := False,
        console := console s @ sessionCloseLog (sessionRef s),
        released := released s @ refHandle (processorRef s) @ refHandle (inputSourceRef s) @
          refHandle (streamRef s) @ refHandle (inputContextRef s) @
          sessionClosed (sessionRef s) @ refHandle (outputContextRef s),
        isConnected := False, currentMode := IDLE, modeChanges := modeChanges s @ [IDLE],
        volume := 0\<rparr>, None)"
    by (rule disconnect_eq)
  let ?s1 = "fst (disconnect e s)"
  have held: "processorRef ?s1 = None" "inputSourceRef ?s1 = None" "streamRef ?s1 = None"
    "inputContextRef ?s1 = None" "outputContextRef ?s1 = None" "sessionRef ?s1 = None"
    "scheduledSourcesRef ?s1 = []"
    by (simp_all add: once)
  have reset: "nextStartTimeRef ?s1 = 0" "\<not> isSpeaking ?s1" "\<not> isConnected ?s1"
    "currentMode ?s1 = IDLE" "volume ?s1 = 0" "modeChanges ?s1 = modeChanges s @ [IDLE]"
    by (simp_all add: once)
  have "disconnect e' ?s1 = (?s1\<lparr>modeChanges := modeChanges ?s1 @ [IDLE]\<rparr>, None)"
    unfolding disconnect_eq [of e' ?s1] using held reset by simp
  then show "disconnect e' ?s1 = (?s1\<lparr>modeChanges := modeChanges s @ [IDLE, IDLE]\<rparr>, None)"
    using reset by simp
qed

theorem disconnect_idempotent_witness:
  "disconnect (sampleEnv 0) (connectedState\<lparr>sessionRef := Some (Resolves (Some CloseThrows))\<rparr>) =
     (initialState
        \<lparr>modeChanges := [CONVERSATION, IDLE],
         console := [''Connection opened'', ''Error closing session''],
         acquired := [AudioContext 16000, AudioContext 24000, MediaStream, LiveSession,
                      MediaStreamAudioSourceNode, ScriptProcessorNode],
         released := [ScriptProcessorNode, MediaStreamAudioSourceNode, MediaStream,
                      AudioContext 16000, AudioContext 24000]\<rparr>, None)
   \<and> disconnect (sampleEnv 1)
       (fst (disconnect (sampleEnv 0)
          (connectedState\<lparr>sessionRef := Some (Resolves (Some CloseThrows))\<rparr>))) =
     (initialState
        \<lparr>modeChanges := [CONVERSATION, IDLE, IDLE],
         console := [''Connection opened'', ''Error closing session''],
         acquired := [AudioContext 16000, AudioContext 24000, MediaStream, LiveSession,
                      MediaStreamAudioSourceNode, ScriptProcessorNode],
         released := [ScriptProcessorNode, MediaStreamAudioSourceNode, MediaStream,
                      AudioContext 16000, AudioContext 24000]\<rparr>, None)
   \<and> disconnect (sampleEnv 0) initialState = (initialState\<lparr>modeChanges := [IDLE]\<rparr>, None)"
proof -
  let ?s = "connectedState\<lparr>sessionRef := Some (Resolves (Some CloseThrows))\<rparr>"
  let ?r = "initialState
        \<lparr>modeChanges := [CONVERSATION, IDLE],
         console := [''Connection opened'', ''Error closing session''],
         acquired := [AudioContext 16000, AudioContext 24000, MediaStream, LiveSession,
                      MediaStreamAudioSourceNode, ScriptProcessorNode],
         released := [ScriptProcessorNode, MediaStreamAudioSourceNode, MediaStream,
                      AudioContext 16000, AudioContext 24000]\<rparr>"
  note twice = disconnect_idempotent [of "sampleEnv 0" ?s "sampleEnv 1"]
  have once: "disconnect (sampleEnv 0) ?s = (?r, None)"
    using twice [THEN conjunct1] by (simp add: connectedState_eq initialState_def)
  have again: "disconnect (sampleEnv 1) (fst (disconnect (sampleEnv 0) ?s)) =
      (?r\<lparr>modeChanges := [CONVERSATION, IDLE, IDLE]\<rparr>, None)"
    using twice [THEN conjunct2] unfolding once by (simp add: connectedState_eq)
  have never: "disconnect (sampleEnv 0) initialState = (initialState\<lparr>modeChanges := [IDLE]\<rparr>, None)"
    using disconnect_idempotent [of "sampleEnv 0" initialState "sampleEnv 0", THEN conjunct1]
    by (simp add: initialState_def)
  show ?thesis
    using once again never by simp
qed

section \<open>Malformed audio\<close>

text \<open>
  Claim C6. When the payload of a message fails to decode, the failure is caught and
  logged and the payload is dropped: nothing is scheduled, the promise of the handler is
  not rejected, and the state changes only in the speaking flag, the cursor (moved up to
  the clock) and the console; the connection state and the refs stay as they were. A
  following message whose payload decodes is handled without rejection and its segment is
  scheduled, at the cursor or the clock, whichever is later.
\<close>

theorem malformed_audio_dropped:
  assumes "bad \<noteq> []" and "dec bad = Inl err"
      and "good \<noteq> []" and "dec good = Inr buf"
      and "outputContextRef s \<noteq> None"
  shows "onmessage dec e1 (audioMessage bad) s =
           (s\<lparr>isSpeaking := True,
              nextStartTimeRef := max (nextStartTimeRef s) (currentTime e1),
              console := console s @ [''Audio decoding error'']\<rparr>, None)
       \<and> snd (onmessage dec e2 (audioMessage good)
             (fst (onmessage dec e1 (audioMessage bad) s))) = None
       \<and> started (fst (onmessage dec e2 (audioMessage good)
             (fst (onmessage dec e1 (audioMessage bad) s)))) =
           started s @
             [\<lparr>seg_source = nextSourceId s,
               seg_start = max (max (nextStartTimeRef s) (currentTime e1)) (currentTime e2),
               seg_duration = duration buf\<rparr>]
       \<and> scheduledSourcesRef (fst (onmessage dec e2 (audioMessage good)
             (fst (onmessage dec e1 (audioMessage bad) s)))) =
           scheduledSourcesRef s @ [\<lparr>sid = nextSourceId s, buffer = buf\<rparr>]
       \<and> isConnected (fst (onmessage dec e2 (audioMessage good)
             (fst (onmessage dec e1 (audioMessage bad) s)))) = isConnected s"
proof -
  note f = onmessage_audio_failed [where dec = dec and ?b64.0 = bad and e = e1 and s = s,
      OF assms(1) assms(5) assms(2)]
  let ?s1 = "fst (onmessage dec e1 (audioMessage bad) s)"
  have ctx: "outputContextRef ?s1 \<noteq> None" using assms(5) by (simp add: f)
  note d = onmessage_audio_decoded [where dec = dec and ?b64.0 = good and e = e2 and s = ?s1,
      OF assms(3) ctx assms(4)]
  show ?thesis
    unfolding d unfolding f by simp
qed

theorem malformed_audio_dropped_witness:
  "onmessage (decodeAudioData 24000) (sampleEnv 1) (audioMessage ''AAAA'') connectedState =
     (connectedState\<lparr>isSpeaking := True, nextStartTimeRef := 1,
        console := [''Connection opened'', ''Audio decoding error'']\<rparr>, None)
   \<and> isConnected connectedState
   \<and> started (fst (onmessage (decodeAudioData 24000) (sampleEnv 2) (audioMessage ''AAAAAAAA'')
        (fst (onmessage (decodeAudioData 24000) (sampleEnv 1) (audioMessage ''AAAA'')
           connectedState)))) =
     [\<lparr>seg_source = 0, seg_start = 2, seg_duration = 4611686018427388 / 2 ^ 65\<rparr>]
   \<and> isConnected (fst (onmessage (decodeAudioData 24000) (sampleEnv 2)
        (audioMessage ''AAAAAAAA'')
        (fst (onmessage (decodeAudioData 24000) (sampleEnv 1) (audioMessage ''AAAA'')
           connectedState))))"
proof -
  let ?dec = "decodeAudioData 24000"
  let ?s1 = "fst (onmessage ?dec (sampleEnv 1) (audioMessage ''AAAA'') connectedState)"
  let ?s2 = "fst (onmessage ?dec (sampleEnv 2) (audioMessage ''AAAAAAAA'') ?s1)"
  have ctx: "outputContextRef connectedState \<noteq> None" by (simp add: connectedState_eq)
  note c = malformed_audio_dropped [where dec = ?dec and bad = "''AAAA''"
      and good = "''AAAAAAAA''" and buf = "\<lparr>frames = 3, rate = 24000\<rparr>"
      and err = "DecodeError ''byte length is not a multiple of 2''"
      and s = connectedState and ?e1.0 = "sampleEnv 1" and ?e2.0 = "sampleEnv 2",
      OF _ decode_odd _ decode_even ctx, simplified]
  have dropped: "onmessage ?dec (sampleEnv 1) (audioMessage ''AAAA'') connectedState =
     (connectedState\<lparr>isSpeaking := True, nextStartTimeRef := 1,
        console := [''Connection opened'', ''Audio decoding error'']\<rparr>, None)"
    using c [THEN conjunct1] by (simp add: connectedState_eq sampleEnv_def)
  have conn: "isConnected connectedState" by (simp add: connectedState_eq)
  have played: "started ?s2 = [\<lparr>seg_source = 0, seg_start = 2, seg_duration = 4611686018427388 / 2 ^ 65\<rparr>]"
    using c [THEN conjunct2, THEN conjunct2, THEN conjunct1]
    by (simp add: duration_sample connectedState_eq sampleEnv_def)
  have still: "isConnected ?s2"
    using c [THEN conjunct2, THEN conjunct2, THEN conjunct2, THEN conjunct2] conn by simp
  from dropped conn played still show ?thesis by (intro conjI)
qed

section \<open>Failures of connect\<close>

text \<open>
  Claim C7. When no key is available (\<^verbatim>\<open>process\<close> is not defined, the variable is not set,
  or it is empty), \<open>connect\<close> throws the missing-key error before it opens anything: the
  error is logged, the error text is set for the caller, and the teardown runs. No
  resource is opened (no audio context, no microphone stream, no call of
  \<^verbatim>\<open>ai.live.connect\<close>), every ref is null afterwards, the session is not connected, and
  the promise of \<open>connect\<close> is not rejected.
\<close>

theorem missing_credential:
  assumes "readApiKey e = []"
  shows "connect e s =
     (s\<lparr>error := Some ''Failed to initialize session. API Key may be missing.'',
        messages := [],
        processorRef := None, inputSourceRef := None, streamRef := None,
        inputContextRef := None, outputContextRef := None, sessionRef := None,
        halted := halted s @ filter (\<lambda>i. \<not> stopThrows e i) (map sid (scheduledSourcesRef s)),
        scheduledSourcesRef := [], nextStartTimeRef := 0, isSpeaking := False,
        console := console s @
          (case API_KEY e of None \<Rightarrow> [''process.env is not defined''] | Some k \<Rightarrow> []) @
          [''API Key is missing. Ensure process.env.API_KEY is set.''] @
          sessionCloseLog (sessionRef s),
        released := released s @ refHandle (processorRef s) @ refHandle (inputSourceRef s) @
          refHandle (streamRef s) @ refHandle (inputContextRef s) @
          sessionClosed (sessionRef s) @ refHandle (outputContextRef s),
        isConnected := False, currentMode := IDLE, modeChanges := modeChanges s @ [IDLE],
        volume := 0\<rparr>, None)
   \<and> commitsNothing s (fst (connect e s))
   \<and> \<not> isConnected (fst (connect e s))"
  using assms
  by (cases "API_KEY e")
     (simp_all add: connect_def connectCatch_def disconnect_eq commitsNothing_def Let_def)

theorem missing_credential_witness:
  "connect ((sampleEnv 0)\<lparr>API_KEY := Some None\<rparr>) initialState =
     (initialState
        \<lparr>error := Some ''Failed to initialize session. API Key may be missing.'',
         console := [''API Key is missing. Ensure process.env.API_KEY is set.''],
         modeChanges := [IDLE]\<rparr>, None)
   \<and> acquired (fst (connect ((sampleEnv 0)\<lparr>API_KEY := Some None\<rparr>) initialState)) = []"
proof -
  let ?e = "(sampleEnv 0)\<lparr>API_KEY := Some None\<rparr>"
  have key: "readApiKey ?e = []" by (simp add: readApiKey_def sampleEnv_def)
  note c = missing_credential [OF key, of initialState]
  have failed: "connect ?e initialState =
     (initialState
        \<lparr>error := Some ''Failed to initialize session. API Key may be missing.'',
         console := [''API Key is missing. Ensure process.env.API_KEY is set.''],
         modeChanges := [IDLE]\<rparr>, None)"
    using c [THEN conjunct1] by (simp add: initialState_def sampleEnv_def)
  have unopened: "acquired (fst (connect ?e initialState)) = []"
    using c [THEN conjunct2, THEN conjunct1] by (simp add: commitsNothing_def initialState_def)
  from failed unopened show ?thesis by (rule conjI)
qed

text \<open>
  Claim C8, as the code has it. When a key is present, the browser has audio contexts and
  the microphone is refused, \<open>connect\<close> has already opened the capture context and the
  output context when \<^verbatim>\<open>getUserMedia\<close> rejects. The rejection is logged, the error text is
  set for the caller, and the teardown closes both contexts again. No microphone stream
  and no transport are opened, every ref is null afterwards, the session is not connected,
  and the promise of \<open>connect\<close> is not rejected.
\<close>

theorem microphone_denied:
  assumes "readApiKey e \<noteq> []" and "hasAudioContext e" and "getUserMedia e = Some err"
  shows "connect e s =
     (s\<lparr>error := Some ''Failed to initialize session. API Key may be missing.'',
        messages := [],
        processorRef := None, inputSourceRef := None, streamRef := None,
        inputContextRef := None, outputContextRef := None, sessionRef := None,
        halted := halted s @ filter (\<lambda>i. \<not> stopThrows e i) (map sid (scheduledSourcesRef s)),
        scheduledSourcesRef := [], nextStartTimeRef := 0, isSpeaking := False,
        console := console s @ [message_of err] @ sessionCloseLog (sessionRef s),
        acquired := acquired s @ [AudioContext 16000, AudioContext 24000],
        released := released s @ refHandle (processorRef s) @ refHandle (inputSourceRef s) @
          refHandle (streamRef s) @ [AudioContext 16000] @
          sessionClosed (sessionRef s) @ [AudioContext 24000],
        isConnected := False, currentMode := IDLE, modeChanges := modeChanges s @ [IDLE],
        volume := 0\<rparr>, None)"
  using assms
  by (cases "API_KEY e")
     (simp_all add: connect_def connectCatch_def disconnect_eq readApiKey_def Let_def)

theorem microphone_denied_witness:
  "connect ((sampleEnv 0)\<lparr>getUserMedia := Some (DOMException ''Permission denied'')\<rparr>)
     initialState =
     (initialState
        \<lparr>error := Some ''Failed to initialize session. API Key may be missing.'',
         console := [''Permission denied''],
         acquired := [AudioContext 16000, AudioContext 24000],
         released := [AudioContext 16000, AudioContext 24000],
         modeChanges := [IDLE]\<rparr>, None)"
  using microphone_denied [of
      "(sampleEnv 0)\<lparr>getUserMedia := Some (DOMException ''Permission denied'')\<rparr>"
      "DOMException ''Permission denied''" initialState]
  by (simp add: readApiKey_def sampleEnv_def initialState_def)

text \<open>
  The claim as stated, that the attempt is aborted before any resource is committed, fails
  for a refused microphone: the two audio contexts are opened first.
\<close>

theorem microphone_denied_counterexample:
  "\<not> commitsNothing initialState
       (fst (connect ((sampleEnv 0)\<lparr>getUserMedia := Some (DOMException ''Permission denied'')\<rparr>)
          initialState))"
  by (simp add: commitsNothing_def connect_def connectCatch_def disconnect_eq readApiKey_def
      sampleEnv_def initialState_def Let_def)

section \<open>The speaking flag\<close>







end
